theory Spec2Isabelle
  imports Complex_Main
begin

section \<open>Numbers\<close>

text \<open>
  The services compute on JavaScript numbers. They are modelled as \<^typ>\<open>real\<close>: the
  arithmetic is the exact one, without the rounding, the infinities and the NaN of IEEE
  doubles. The library functions the code calls are written out below.

  What is proved of a number below is an order or a bound that rounding to the nearest
  double keeps, or a value that the doubles give as well. The last digit of a score is not
  of that kind: where the exact weighted sum, times 10000, lies on a half (distance 0,
  bearing difference 15.3125, \<^verbatim>\<open>google_places\<close>, a name and a rating give 9987.5), the
  sum computed in doubles lies just below it, and the program returns 99.87 where the exact
  arithmetic gives 99.88. No equation between a score and its exact value is stated here.
\<close>

text \<open>\<^verbatim>\<open>Math.round(x)\<close>: the integer nearest to \<open>x\<close>, a tie going up.\<close>

definition math_round :: "real \<Rightarrow> real" where
  "math_round x = of_int \<lfloor>x + 1 / 2\<rfloor>"

text \<open>\<^verbatim>\<open>x % m\<close>: the remainder of the division truncated towards zero; it has the sign of \<open>x\<close>.\<close>

definition js_rem :: "real \<Rightarrow> real \<Rightarrow> real" where
  "js_rem x m = x - m * of_int (if 0 \<le> x / m then \<lfloor>x / m\<rfloor> else \<lceil>x / m\<rceil>)"

section \<open>bearing.service.ts\<close>

record Coordinates =
  latitude :: real
  longitude :: real

definition EARTH_RADIUS_METERS :: real where
  "EARTH_RADIUS_METERS = 6371000"

definition toRadians :: "real \<Rightarrow> real" where
  "toRadians degrees = degrees * (pi / 180)"

definition toDegrees :: "real \<Rightarrow> real" where
  "toDegrees radians = radians * (180 / pi)"

definition normalizeBearing :: "real \<Rightarrow> real" where
  "normalizeBearing bearing =
     (let normalized = js_rem bearing 360
      in if normalized < 0 then normalized + 360 else normalized)"

text \<open>\<^verbatim>\<open>Math.atan2(y, x)\<close> on reals (there is no negative zero here).\<close>

definition math_atan2 :: "real \<Rightarrow> real \<Rightarrow> real" where
  "math_atan2 y x =
     (if 0 < x then arctan (y / x)
      else if x < 0 \<and> 0 \<le> y then arctan (y / x) + pi
      else if x < 0 then arctan (y / x) - pi
      else if 0 < y then pi / 2
      else if y < 0 then - (pi / 2)
      else 0)"

definition calculateDistance :: "Coordinates \<Rightarrow> Coordinates \<Rightarrow> real" where
  "calculateDistance from to =
     (let lat1Rad = toRadians (latitude from);
          lat2Rad = toRadians (latitude to);
          deltaLat = toRadians (latitude to - latitude from);
          deltaLon = toRadians (longitude to - longitude from);
          a = sin (deltaLat / 2) * sin (deltaLat / 2) +
              cos lat1Rad * cos lat2Rad * sin (deltaLon / 2) * sin (deltaLon / 2);
          c = 2 * math_atan2 (sqrt a) (sqrt (1 - a))
      in EARTH_RADIUS_METERS * c)"

definition calculateBearing :: "Coordinates \<Rightarrow> Coordinates \<Rightarrow> real" where
  "calculateBearing from to =
     (let lat1Rad = toRadians (latitude from);
          lat2Rad = toRadians (latitude to);
          deltaLon = toRadians (longitude to - longitude from);
          y = sin deltaLon * cos lat2Rad;
          x = cos lat1Rad * sin lat2Rad - sin lat1Rad * cos lat2Rad * cos deltaLon;
          bearingRad = math_atan2 y x;
          bearingDeg = toDegrees bearingRad
      in normalizeBearing bearingDeg)"

definition calculateBearingDifference :: "real \<Rightarrow> real \<Rightarrow> real" where
  "calculateBearingDifference bearing1 bearing2 =
     (let normalized1 = normalizeBearing bearing1;
          normalized2 = normalizeBearing bearing2;
          diff = \<bar>normalized1 - normalized2\<bar>
      in if diff > 180 then 360 - diff else diff)"

record BearingCalculation =
  bc_distance :: real
  bc_bearing :: real
  bc_bearingDiff :: "real option"

definition calculateBearingAndDistance ::
  "Coordinates \<Rightarrow> Coordinates \<Rightarrow> real option \<Rightarrow> BearingCalculation" where
  "calculateBearingAndDistance from to userHeading =
     (let distance = calculateDistance from to;
          bearing = calculateBearing from to
      in \<lparr>bc_distance = distance, bc_bearing = bearing,
          bc_bearingDiff =
            (case userHeading of
               None \<Rightarrow> None
             | Some h \<Rightarrow> Some (calculateBearingDifference bearing h))\<rparr>)"

section \<open>scoring.service.ts\<close>

datatype source = google_places | google_geocoding | nominatim | cache

text \<open>\<^verbatim>\<open>SOURCE_WEIGHTS\<close>\<close>

fun SOURCE_WEIGHTS :: "source \<Rightarrow> real" where
  "SOURCE_WEIGHTS google_places = 1.0"
| "SOURCE_WEIGHTS google_geocoding = 0.8"
| "SOURCE_WEIGHTS nominatim = 0.6"
| "SOURCE_WEIGHTS cache = 0.7"

record ScoringFactors =
  sf_distance :: real
  sf_bearingDiff :: "real option"
  sf_source :: source
  sf_hasName :: bool
  sf_hasRating :: "bool option"

definition calculateDistanceScore :: "real \<Rightarrow> real" where
  "calculateDistanceScore distance =
     (if distance \<le> 10 then 1.0
      else let excessDistance = distance - 10;
               score = exp (- 0.05 * excessDistance)
           in max 0 (min 1 score))"

definition calculateBearingScore :: "real option \<Rightarrow> real" where
  "calculateBearingScore bearingDiff =
     (case bearingDiff of
        None \<Rightarrow> 0.5
      | Some bd \<Rightarrow>
          if bd \<le> 15 then 1.0
          else if bd \<ge> 90 then 0.0
          else let score = 1 - (bd - 15) / (90 - 15)
               in max 0 (min 1 score))"

definition calculateSourceScore :: "source \<Rightarrow> real" where
  "calculateSourceScore src = SOURCE_WEIGHTS src"

definition calculateMetadataScore :: "bool \<Rightarrow> bool option \<Rightarrow> real" where
  "calculateMetadataScore hasName hasRating =
     (let score = 0;
          score = (if hasName then score + 0.6 else score);
          score = (if hasRating = Some True then score + 0.4 else score)
      in min 1 score)"

definition calculateConfidenceScore :: "ScoringFactors \<Rightarrow> real" where
  "calculateConfidenceScore factors =
     (let distanceScore = calculateDistanceScore (sf_distance factors);
          bearingScore = calculateBearingScore (sf_bearingDiff factors);
          sourceScore = calculateSourceScore (sf_source factors);
          metadataScore = calculateMetadataScore (sf_hasName factors) (sf_hasRating factors);
          rawScore = distanceScore * 0.4 + bearingScore * 0.3 +
                     sourceScore * 0.2 + metadataScore * 0.1;
          percentage = rawScore * 100
      in math_round (percentage * 100) / 100)"

text \<open>The weighted sum of \<open>calculateConfidenceScore\<close> before it is scaled and rounded.\<close>

definition rawScore :: "ScoringFactors \<Rightarrow> real" where
  "rawScore factors =
     calculateDistanceScore (sf_distance factors) * 0.4 +
     calculateBearingScore (sf_bearingDiff factors) * 0.3 +
     calculateSourceScore (sf_source factors) * 0.2 +
     calculateMetadataScore (sf_hasName factors) (sf_hasRating factors) * 0.1"

section \<open>services.types.ts\<close>

text \<open>
  A thrown JavaScript exception is a value of type \<open>error\<close>; an \<^verbatim>\<open>async\<close> function that
  may reject returns \<open>error + 'a\<close>, with \<open>Inl\<close> for the rejection.
\<close>

datatype error = Error string

text \<open>
  JSON values, for the open metadata bag \<^verbatim>\<open>Record<string, unknown>\<close>. A property that
  holds \<^verbatim>\<open>undefined\<close> is represented like a missing property: the code reads metadata
  only through \<^verbatim>\<open>!== undefined\<close> and truthiness tests and through
  \<^verbatim>\<open>JSON.stringify\<close>, which do not tell the two apart. An optional field that is
  \<^verbatim>\<open>undefined\<close> or \<^verbatim>\<open>null\<close> is \<open>None\<close>.
\<close>

datatype jvalue = JNull | JBool bool | JNum real | JStr string
  | JArr "jvalue list" | JObj "(string \<times> jvalue) list"

type_synonym Metadata = "string \<rightharpoonup> jvalue"

record GeocodingResult =
  gr_name :: "string option"
  gr_address :: string
  gr_coordinates :: Coordinates
  gr_placeId :: "string option"
  gr_source :: source
  gr_metadata :: "Metadata option"

record PlaceResult =
  pr_placeId :: string
  pr_name :: string
  pr_address :: string
  pr_coordinates :: Coordinates
  pr_rating :: "real option"
  pr_userRatingsTotal :: "real option"
  pr_types :: "string list option"
  pr_vicinity :: "string option"
  pr_metadata :: "Metadata option"

record BuildingCandidate =
  c_id :: "string option"
  c_externalId :: "string option"
  c_name :: "string option"
  c_address :: string
  c_coordinates :: Coordinates
  c_distance :: real
  c_bearing :: real
  c_bearingDiff :: "real option"
  c_confidence :: real
  c_source :: source
  c_metadata :: "Metadata option"

text \<open>A row of the table \<^verbatim>\<open>cached_buildings\<close>; times are milliseconds since the epoch.\<close>

record CachedBuilding =
  cb_id :: string
  cb_externalId :: "string option"
  cb_source :: string
  cb_name :: "string option"
  cb_address :: string
  cb_latitude :: real
  cb_longitude :: real
  cb_metadata :: "Metadata option"
  cb_createdAt :: real
  cb_updatedAt :: real
  cb_expiresAt :: "real option"

text \<open>\<^verbatim>\<open>Omit<CachedBuilding, 'id' | 'createdAt' | 'updatedAt'>\<close>\<close>

record BuildingData =
  bd_externalId :: "string option"
  bd_source :: string
  bd_name :: "string option"
  bd_address :: string
  bd_latitude :: real
  bd_longitude :: real
  bd_metadata :: "Metadata option"
  bd_expiresAt :: "real option"

record IdentifyBuildingInput =
  in_latitude :: real
  in_longitude :: real
  in_heading :: "real option"
  in_searchRadius :: "real option"

record IdentifyBuildingResult =
  res_candidates :: "BuildingCandidate list"
  res_searchRadius :: real
  res_searchCenter :: Coordinates
  res_heading :: "real option"
  res_timestamp :: real

section \<open>The world outside the services\<close>

text \<open>
  An element of the \<^verbatim>\<open>results\<close> array of a Google Places response, with the fields
  \<open>findNearbyPlaces\<close> reads; \<open>rp_location\<close> is \<^verbatim>\<open>geometry?.location\<close>.
\<close>

record RawPlace =
  rp_place_id :: string
  rp_name :: string
  rp_vicinity :: "string option"
  rp_formatted_address :: "string option"
  rp_location :: "Coordinates option"
  rp_types :: "string list option"
  rp_rating :: "real option"
  rp_user_ratings_total :: "real option"
  rp_business_status :: "jvalue option"
  rp_icon :: "jvalue option"
  rp_photos :: "jvalue option"
  rp_plus_code :: "jvalue option"
  rp_price_level :: "jvalue option"

record PlacesResponse =
  presp_status :: string
  presp_results :: "RawPlace list option"

text \<open>
  A number printed by \<^verbatim>\<open>toFixed(digits)\<close> is the pair of its sign and of the integer
  \<open>n\<close> with \<open>n / 10 ^ digits\<close> nearest to the absolute value (the larger \<open>n\<close> on a tie): two
  numbers print the same string exactly when the pairs are equal. Cache keys are tuples of
  such pairs and of the numbers that are printed in full; the three key prefixes are three
  stores.
\<close>

type_synonym fixed = "bool \<times> int"

definition toFixed :: "real \<Rightarrow> nat \<Rightarrow> fixed" where
  "toFixed x digits = (x < 0, \<lfloor>\<bar>x\<bar> * 10 ^ digits + 1 / 2\<rfloor>)"

type_synonym identify_key = "fixed \<times> fixed \<times> real option \<times> real"
type_synonym places_key = "fixed \<times> fixed \<times> real"
type_synonym geocode_key = "fixed \<times> fixed"

text \<open>
  The calls the orchestrator makes to the other services are recorded in \<open>calls\<close>, in
  order; each service appends its own entry when it is entered.
\<close>

datatype call =
    Call_getCachedIdentifyResults
  | Call_getCachedBuildings
  | Call_findNearbyPlaces
  | Call_reverseGeocode
  | Call_saveBuildingToCache BuildingCandidate
  | Call_cacheIdentifyResults "BuildingCandidate list"

text \<open>
  The mutable state: the three Redis stores (a stored string is represented by the value
  \<^verbatim>\<open>JSON.parse\<close> gives for it; entries that have expired are not in the map), the
  rows of \<^verbatim>\<open>cached_buildings\<close>, and the record of calls.
\<close>

record World =
  redis_identify :: "identify_key \<rightharpoonup> BuildingCandidate list"
  redis_places :: "places_key \<rightharpoonup> PlaceResult list"
  redis_geocode :: "geocode_key \<rightharpoonup> GeocodingResult"
  cached_buildings :: "CachedBuilding list"
  calls :: "call list"

text \<open>
  What the configuration and the collaborators do during one request. A field
  \<open>\<dots>_fails = Some e\<close> makes that Redis or database call throw \<open>e\<close>; the HTTP fields give
  the response of the request or the exception it throws (a response without the shape the
  code reads makes the code throw inside the same \<^verbatim>\<open>try\<close> block, and is such an
  exception). For the two geocoding providers the field is the outcome of the
  \<^verbatim>\<open>try\<close> block of \<^verbatim>\<open>geocodeWithGoogle\<close> and \<^verbatim>\<open>geocodeWithNominatim\<close> up to
  the object literal that builds the result: an exception, \<^verbatim>\<open>null\<close>, or the fields of
  the response that the literal reads, with the name found for the building. \<open>st_dwithin\<close> and
  \<open>st_distance\<close> are the PostGIS functions, \<open>uuid_generate_v4\<close> the identifier the
  database gives a new row, \<open>date_now\<close> the clock.
\<close>

text \<open>
  The first result of the Google Geocoding response: \<open>gres_name\<close> is the
  \<^verbatim>\<open>long_name\<close> of the first address component of type \<^verbatim>\<open>premise\<close> or
  \<^verbatim>\<open>point_of_interest\<close>, \<open>gres_location\<close> is \<^verbatim>\<open>geometry.location\<close>.
\<close>

record GoogleResult =
  gres_name :: "string option"
  gres_formatted_address :: string
  gres_location :: Coordinates
  gres_place_id :: "string option"
  gres_address_components :: "jvalue option"
  gres_location_type :: "jvalue option"
  gres_types :: "jvalue option"

text \<open>
  The data of the Nominatim response: \<open>nd_name\<close> is the first of \<^verbatim>\<open>address.building\<close>,
  \<^verbatim>\<open>house\<close>, \<^verbatim>\<open>amenity\<close>, \<^verbatim>\<open>shop\<close> and \<^verbatim>\<open>office\<close> that is set,
  \<open>nd_location\<close> the parsed \<^verbatim>\<open>lat\<close> and \<^verbatim>\<open>lon\<close>, \<open>nd_place_id\<close> the printed
  \<^verbatim>\<open>place_id\<close>.
\<close>

record NominatimData =
  nd_name :: "string option"
  nd_display_name :: string
  nd_location :: Coordinates
  nd_place_id :: "string option"
  nd_osm_type :: "jvalue option"
  nd_osm_id :: "jvalue option"
  nd_category :: "jvalue option"
  nd_type :: "jvalue option"
  nd_address :: "jvalue option"

record Env =
  SEARCH_RADIUS_METERS :: real
  CACHE_TTL_PLACES :: real
  date_now :: real
  identify_get_fails :: "error option"
  identify_setex_fails :: "error option"
  places_get_fails :: "error option"
  places_setex_fails :: "error option"
  geocode_get_fails :: "error option"
  geocode_setex_fails :: "error option"
  places_response :: "error + PlacesResponse"
  google_geocode_try :: "error + GoogleResult option"
  nominatim_geocode_try :: "error + NominatimData option"
  select_fails :: "error option"
  st_dwithin :: "CachedBuilding \<Rightarrow> Coordinates \<Rightarrow> real \<Rightarrow> bool"
  st_distance :: "CachedBuilding \<Rightarrow> Coordinates \<Rightarrow> real"
  save_fails :: "BuildingData \<Rightarrow> error option"
  uuid_generate_v4 :: "CachedBuilding list \<Rightarrow> string"

definition log_call :: "call \<Rightarrow> World \<Rightarrow> World" where
  "log_call c w = w\<lparr>calls := calls w @ [c]\<rparr>"

section \<open>database.service.ts\<close>

text \<open>
  \<^verbatim>\<open>findBuildingsNearLocation\<close>: the rows within the radius that have not expired,
  nearest first. The query reads the table and changes nothing.
\<close>

definition findBuildingsNearLocation ::
  "Env \<Rightarrow> Coordinates \<Rightarrow> real \<Rightarrow> World \<Rightarrow> error + CachedBuilding list" where
  "findBuildingsNearLocation env coordinates radiusMeters w =
     (case select_fails env of
        Some e \<Rightarrow> Inl e
      | None \<Rightarrow>
          Inr (sort_key (\<lambda>row. st_distance env row coordinates)
                (filter (\<lambda>row. st_dwithin env row coordinates radiusMeters \<and>
                                (case cb_expiresAt row of None \<Rightarrow> True
                                 | Some t \<Rightarrow> t > date_now env))
                   (cached_buildings w))))"

text \<open>
  \<^verbatim>\<open>getBuildingByExternalId\<close>: the first row with this external id and source, or
  \<^verbatim>\<open>null\<close>. Its failure is part of \<open>save_fails\<close> of its only caller.
\<close>

definition getBuildingByExternalId :: "string \<Rightarrow> string \<Rightarrow> World \<Rightarrow> CachedBuilding option" where
  "getBuildingByExternalId externalId src w =
     find (\<lambda>row. cb_externalId row = Some externalId \<and> cb_source row = src)
       (cached_buildings w)"

text \<open>\<^verbatim>\<open>s || null\<close> for an optional string: the empty string is falsy.\<close>

definition or_null :: "string option \<Rightarrow> string option" where
  "or_null s = (case s of None \<Rightarrow> None | Some v \<Rightarrow> if v = [] then None else Some v)"

text \<open>
  \<^verbatim>\<open>saveBuildingToDatabase\<close>: update the row found by external id and source, or
  insert a new row. A failure of the connection or of a query throws and leaves the table as
  it was, and so does an insert whose new identifier is already a primary key.
\<close>

definition saveBuildingToDatabase :: "Env \<Rightarrow> BuildingData \<Rightarrow> World \<Rightarrow> (error + string) \<times> World" where
  "saveBuildingToDatabase env building w =
     (case save_fails env building of
        Some e \<Rightarrow> (Inl e, w)
      | None \<Rightarrow>
          let existingId =
                (case or_null (bd_externalId building) of
                   None \<Rightarrow> None
                 | Some externalId \<Rightarrow>
                     (case getBuildingByExternalId externalId (bd_source building) w of
                        None \<Rightarrow> None
                      | Some existing \<Rightarrow> or_null (Some (cb_id existing))))
          in case existingId of
               Some i \<Rightarrow>
                 (Inr i,
                  w\<lparr>cached_buildings :=
                      map (\<lambda>row. if cb_id row = i
                                  then row\<lparr>cb_name := or_null (bd_name building),
                                           cb_address := bd_address building,
                                           cb_latitude := bd_latitude building,
                                           cb_longitude := bd_longitude building,
                                           cb_metadata := bd_metadata building,
                                           cb_updatedAt := date_now env,
                                           cb_expiresAt := bd_expiresAt building\<rparr>
                                  else row)
                        (cached_buildings w)\<rparr>)
             | None \<Rightarrow>
                 let i = uuid_generate_v4 env (cached_buildings w)
                 in if i \<in> set (map cb_id (cached_buildings w))
                    then (Inl (Error ''duplicate key value violates unique constraint''), w)
                    else (Inr i,
                          w\<lparr>cached_buildings := cached_buildings w @
                              [\<lparr>cb_id = i,
                                cb_externalId = or_null (bd_externalId building),
                                cb_source = bd_source building,
                                cb_name = or_null (bd_name building),
                                cb_address = bd_address building,
                                cb_latitude = bd_latitude building,
                                cb_longitude = bd_longitude building,
                                cb_metadata = bd_metadata building,
                                cb_createdAt = date_now env,
                                cb_updatedAt = date_now env,
                                cb_expiresAt = bd_expiresAt building\<rparr>]\<rparr>))"

section \<open>cache.service.ts\<close>

definition getIdentifyCacheKey :: "real \<Rightarrow> real \<Rightarrow> real option \<Rightarrow> real \<Rightarrow> identify_key" where
  "getIdentifyCacheKey lat lon heading radius =
     (let roundedLat = toFixed lat 5;
          roundedLon = toFixed lon 5;
          headingStr = (case heading of None \<Rightarrow> None | Some h \<Rightarrow> Some (math_round h))
      in (roundedLat, roundedLon, headingStr, radius))"

definition candidate_of_cached :: "CachedBuilding \<Rightarrow> BuildingCandidate" where
  "candidate_of_cached building =
     \<lparr>c_id = Some (cb_id building),
      c_externalId = cb_externalId building,
      c_name = cb_name building,
      c_address = cb_address building,
      c_coordinates = \<lparr>latitude = cb_latitude building, longitude = cb_longitude building\<rparr>,
      c_distance = 0,
      c_bearing = 0,
      c_bearingDiff = None,
      c_confidence = 0,
      c_source = cache,
      c_metadata = cb_metadata building\<rparr>"

definition getCachedBuildings ::
  "Env \<Rightarrow> Coordinates \<Rightarrow> real \<Rightarrow> World \<Rightarrow> (error + BuildingCandidate list) \<times> World" where
  "getCachedBuildings env coordinates radiusMeters w0 =
     (let w = log_call Call_getCachedBuildings w0
      in case findBuildingsNearLocation env coordinates radiusMeters w of
           Inr cachedBuildings \<Rightarrow> (Inr (map candidate_of_cached cachedBuildings), w)
         | Inl e \<Rightarrow> (Inr [], w))"

fun source_name :: "source \<Rightarrow> string" where
  "source_name google_places = ''google_places''"
| "source_name google_geocoding = ''google_geocoding''"
| "source_name nominatim = ''nominatim''"
| "source_name cache = ''cache''"

text \<open>
  The metadata \<open>saveBuildingToCache\<close> stores: the candidate's own metadata spread first,
  then the four computed fields (\<^verbatim>\<open>bearingDiff\<close> holds \<^verbatim>\<open>undefined\<close> when the
  candidate has none).
\<close>

definition merged_metadata :: "BuildingCandidate \<Rightarrow> Metadata" where
  "merged_metadata candidate =
     ((case c_metadata candidate of None \<Rightarrow> Map.empty | Some m \<Rightarrow> m)
        (''distance'' \<mapsto> JNum (c_distance candidate),
         ''bearing'' \<mapsto> JNum (c_bearing candidate),
         ''bearingDiff'' := map_option JNum (c_bearingDiff candidate),
         ''confidence'' \<mapsto> JNum (c_confidence candidate)))"

text \<open>
  \<^verbatim>\<open>saveBuildingToCache(candidate, ttlSeconds = CACHE_TTL.PLACES)\<close>. The cast
  \<^verbatim>\<open>originalSource as string\<close> is taken at its word: a value that is not a string
  counts as absent. The \<^verbatim>\<open>catch\<close> block logs and throws the error again.
\<close>

definition saveBuildingToCache ::
  "Env \<Rightarrow> BuildingCandidate \<Rightarrow> real option \<Rightarrow> World \<Rightarrow> (error + string) \<times> World" where
  "saveBuildingToCache env candidate ttl w0 =
     (let w = log_call (Call_saveBuildingToCache candidate) w0;
          ttlSeconds = (case ttl of None \<Rightarrow> CACHE_TTL_PLACES env | Some t \<Rightarrow> t);
          expiresAt = date_now env + ttlSeconds * 1000;
          dbSource =
            (if c_source candidate = cache
             then (case c_metadata candidate of
                     None \<Rightarrow> ''cache''
                   | Some m \<Rightarrow>
                       (case m ''originalSource'' of
                          Some (JStr s) \<Rightarrow> if s = [] then ''cache'' else s
                        | _ \<Rightarrow> ''cache''))
             else source_name (c_source candidate));
          buildingData =
            \<lparr>bd_externalId = c_externalId candidate,
             bd_source = dbSource,
             bd_name = c_name candidate,
             bd_address = c_address candidate,
             bd_latitude = latitude (c_coordinates candidate),
             bd_longitude = longitude (c_coordinates candidate),
             bd_metadata = Some (merged_metadata candidate),
             bd_expiresAt = Some expiresAt\<rparr>
      in saveBuildingToDatabase env buildingData w)"

definition getCachedIdentifyResults ::
  "Env \<Rightarrow> Coordinates \<Rightarrow> real option \<Rightarrow> real \<Rightarrow> World
     \<Rightarrow> (error + BuildingCandidate list option) \<times> World" where
  "getCachedIdentifyResults env coordinates heading radius w0 =
     (let w = log_call Call_getCachedIdentifyResults w0;
          cacheKey = getIdentifyCacheKey (latitude coordinates) (longitude coordinates)
                       heading radius
      in case identify_get_fails env of
           Some e \<Rightarrow> (Inr None, w)
         | None \<Rightarrow>
             (case redis_identify w cacheKey of
                None \<Rightarrow> (Inr None, w)
              | Some candidates \<Rightarrow> (Inr (Some candidates), w)))"

definition cacheIdentifyResults ::
  "Env \<Rightarrow> Coordinates \<Rightarrow> real option \<Rightarrow> real \<Rightarrow> BuildingCandidate list \<Rightarrow> World
     \<Rightarrow> (error + unit) \<times> World" where
  "cacheIdentifyResults env coordinates heading radius candidates w0 =
     (let w = log_call (Call_cacheIdentifyResults candidates) w0;
          cacheKey = getIdentifyCacheKey (latitude coordinates) (longitude coordinates)
                       heading radius
      in case identify_setex_fails env of
           Some e \<Rightarrow> (Inr (), w)
         | None \<Rightarrow> (Inr (), w\<lparr>redis_identify := (redis_identify w)(cacheKey \<mapsto> candidates)\<rparr>))"

section \<open>places.service.ts\<close>

definition BUILDING_TYPES :: "string list" where
  "BUILDING_TYPES = [''establishment'', ''point_of_interest'', ''premise'', ''street_address'']"

definition places_getCacheKey :: "real \<Rightarrow> real \<Rightarrow> real \<Rightarrow> places_key" where
  "places_getCacheKey lat lon radius =
     (let roundedLat = toFixed lat 5;
          roundedLon = toFixed lon 5
      in (roundedLat, roundedLon, radius))"

text \<open>\<^verbatim>\<open>a || b || ''\<close> on optional strings.\<close>

definition first_truthy :: "string option \<Rightarrow> string option \<Rightarrow> string" where
  "first_truthy a b =
     (case or_null a of Some s \<Rightarrow> s
      | None \<Rightarrow> (case or_null b of Some s \<Rightarrow> s | None \<Rightarrow> []))"

text \<open>
  The \<^verbatim>\<open>filter\<close> and \<^verbatim>\<open>map\<close> over the places of the response: a place is kept
  when one of its types is a building type and it has a location.
\<close>

definition transform_places :: "RawPlace list \<Rightarrow> PlaceResult list" where
  "transform_places places =
     List.map_filter
       (\<lambda>place.
          case rp_location place of
            None \<Rightarrow> None
          | Some location \<Rightarrow>
              if (case rp_types place of
                    None \<Rightarrow> False
                  | Some ts \<Rightarrow> list_ex (\<lambda>t. t \<in> set BUILDING_TYPES) ts)
              then Some
                \<lparr>pr_placeId = rp_place_id place,
                 pr_name = rp_name place,
                 pr_address = first_truthy (rp_vicinity place) (rp_formatted_address place),
                 pr_coordinates = location,
                 pr_rating = rp_rating place,
                 pr_userRatingsTotal = rp_user_ratings_total place,
                 pr_types = rp_types place,
                 pr_vicinity = rp_vicinity place,
                 pr_metadata =
                   Some (Map.empty
                     (''businessStatus'' := rp_business_status place,
                      ''icon'' := rp_icon place,
                      ''photos'' := rp_photos place,
                      ''plusCode'' := rp_plus_code place,
                      ''priceLevel'' := rp_price_level place))\<rparr>
              else None)
       places"

text \<open>The \<^verbatim>\<open>try\<close> block of \<open>findNearbyPlaces\<close>.\<close>

definition findNearbyPlaces_try ::
  "Env \<Rightarrow> Coordinates \<Rightarrow> real \<Rightarrow> World \<Rightarrow> (error + PlaceResult list) \<times> World" where
  "findNearbyPlaces_try env coordinates radius w =
     (let cacheKey = places_getCacheKey (latitude coordinates) (longitude coordinates) radius
      in case places_get_fails env of
           Some e \<Rightarrow> (Inl e, w)
         | None \<Rightarrow>
             (case redis_places w cacheKey of
                Some cached \<Rightarrow> (Inr cached, w)
              | None \<Rightarrow>
                  (case places_response env of
                     Inl e \<Rightarrow> (Inl e, w)
                   | Inr response \<Rightarrow>
                       if presp_status response \<noteq> ''OK'' \<and>
                          presp_status response \<noteq> ''ZERO_RESULTS''
                       then (if presp_status response = ''ZERO_RESULTS'' then (Inr [], w)
                             else (Inl (Error (''Google Places API error: '' @
                                                presp_status response)), w))
                       else
                         let places = (case presp_results response of None \<Rightarrow> []
                                       | Some rs \<Rightarrow> rs);
                             placeResults = transform_places places
                         in case places_setex_fails env of
                              Some e \<Rightarrow> (Inl e, w)
                            | None \<Rightarrow>
                                (Inr placeResults,
                                 w\<lparr>redis_places :=
                                     (redis_places w)(cacheKey \<mapsto> placeResults)\<rparr>))))"

text \<open>\<open>findNearbyPlaces\<close>: the \<^verbatim>\<open>catch\<close> block returns the empty array on any error.\<close>

definition findNearbyPlaces ::
  "Env \<Rightarrow> Coordinates \<Rightarrow> real \<Rightarrow> World \<Rightarrow> (error + PlaceResult list) \<times> World" where
  "findNearbyPlaces env coordinates radius w0 =
     (let w = log_call Call_findNearbyPlaces w0
      in case findNearbyPlaces_try env coordinates radius w of
           (Inr places, w') \<Rightarrow> (Inr places, w')
         | (Inl e, w') \<Rightarrow> (Inr [], w'))"

section \<open>geocoding.service.ts\<close>

definition geocode_getCacheKey :: "real \<Rightarrow> real \<Rightarrow> geocode_key" where
  "geocode_getCacheKey lat lon =
     (let roundedLat = toFixed lat 6;
          roundedLon = toFixed lon 6
      in (roundedLat, roundedLon))"

text \<open>
  The two providers: the result built in the \<^verbatim>\<open>try\<close> block, \<^verbatim>\<open>null\<close> from the
  \<^verbatim>\<open>catch\<close> block.
\<close>

definition geocodeWithGoogle :: "Env \<Rightarrow> Coordinates \<Rightarrow> GeocodingResult option" where
  "geocodeWithGoogle env coordinates =
     (case google_geocode_try env of
        Inl e \<Rightarrow> None
      | Inr None \<Rightarrow> None
      | Inr (Some result) \<Rightarrow>
          Some \<lparr>gr_name = gres_name result,
                gr_address = gres_formatted_address result,
                gr_coordinates = gres_location result,
                gr_placeId = gres_place_id result,
                gr_source = google_geocoding,
                gr_metadata =
                  Some (Map.empty
                    (''addressComponents'' := gres_address_components result,
                     ''locationType'' := gres_location_type result,
                     ''types'' := gres_types result))\<rparr>)"

definition geocodeWithNominatim :: "Env \<Rightarrow> Coordinates \<Rightarrow> GeocodingResult option" where
  "geocodeWithNominatim env coordinates =
     (case nominatim_geocode_try env of
        Inl e \<Rightarrow> None
      | Inr None \<Rightarrow> None
      | Inr (Some data) \<Rightarrow>
          Some \<lparr>gr_name = nd_name data,
                gr_address = nd_display_name data,
                gr_coordinates = nd_location data,
                gr_placeId = nd_place_id data,
                gr_source = nominatim,
                gr_metadata =
                  Some (Map.empty
                    (''osmType'' := nd_osm_type data,
                     ''osmId'' := nd_osm_id data,
                     ''category'' := nd_category data,
                     ''type'' := nd_type data,
                     ''address'' := nd_address data))\<rparr>)"

text \<open>The \<^verbatim>\<open>try\<close> block of \<open>reverseGeocode\<close>.\<close>

definition reverseGeocode_try ::
  "Env \<Rightarrow> Coordinates \<Rightarrow> World \<Rightarrow> (error + GeocodingResult option) \<times> World" where
  "reverseGeocode_try env coordinates w =
     (let cacheKey = geocode_getCacheKey (latitude coordinates) (longitude coordinates)
      in case geocode_get_fails env of
           Some e \<Rightarrow> (Inl e, w)
         | None \<Rightarrow>
             (case redis_geocode w cacheKey of
                Some cached \<Rightarrow> (Inr (Some cached), w)
              | None \<Rightarrow>
                  let result = geocodeWithGoogle env coordinates;
                      result = (case result of
                                  None \<Rightarrow> geocodeWithNominatim env coordinates
                                | Some r \<Rightarrow> Some r)
                  in case result of
                       None \<Rightarrow> (Inr None, w)
                     | Some r \<Rightarrow>
                         (case geocode_setex_fails env of
                            Some e \<Rightarrow> (Inl e, w)
                          | None \<Rightarrow>
                              (Inr (Some r),
                               w\<lparr>redis_geocode := (redis_geocode w)(cacheKey \<mapsto> r)\<rparr>))))"

definition reverseGeocode ::
  "Env \<Rightarrow> Coordinates \<Rightarrow> World \<Rightarrow> (error + GeocodingResult option) \<times> World" where
  "reverseGeocode env coordinates w0 =
     (let w = log_call Call_reverseGeocode w0
      in case reverseGeocode_try env coordinates w of
           (Inr result, w') \<Rightarrow> (Inr result, w')
         | (Inl e, w') \<Rightarrow> (Inr None, w'))"

section \<open>identify.service.ts\<close>

text \<open>
  \<^verbatim>\<open>Array.prototype.sort(comparefn)\<close>: a stable sort; an element stays before the
  elements it does not compare greater than. With a consistent comparator there is one such
  result, computed here by insertion from the right.
\<close>

fun array_sort_insert :: "('a \<Rightarrow> 'a \<Rightarrow> real) \<Rightarrow> 'a \<Rightarrow> 'a list \<Rightarrow> 'a list" where
  "array_sort_insert comparefn x [] = [x]"
| "array_sort_insert comparefn x (y # ys) =
     (if comparefn x y \<le> 0 then x # y # ys else y # array_sort_insert comparefn x ys)"

definition array_sort :: "('a \<Rightarrow> 'a \<Rightarrow> real) \<Rightarrow> 'a list \<Rightarrow> 'a list" where
  "array_sort comparefn xs = foldr (array_sort_insert comparefn) xs []"

text \<open>The candidate pushed for a place (step 2b) and for the geocoding result (step 2c).\<close>

definition candidate_of_place :: "PlaceResult \<Rightarrow> BuildingCandidate" where
  "candidate_of_place place =
     \<lparr>c_id = None,
      c_externalId = Some (pr_placeId place),
      c_name = Some (pr_name place),
      c_address = pr_address place,
      c_coordinates = pr_coordinates place,
      c_distance = 0,
      c_bearing = 0,
      c_bearingDiff = None,
      c_confidence = 0,
      c_source = google_places,
      c_metadata =
        Some ((Map.empty
                (''rating'' := map_option JNum (pr_rating place),
                 ''userRatingsTotal'' := map_option JNum (pr_userRatingsTotal place),
                 ''types'' := map_option (\<lambda>ts. JArr (map JStr ts)) (pr_types place)))
              ++ (case pr_metadata place of None \<Rightarrow> Map.empty | Some m \<Rightarrow> m))\<rparr>"

definition candidate_of_geocode :: "GeocodingResult \<Rightarrow> BuildingCandidate" where
  "candidate_of_geocode geocodeResult =
     \<lparr>c_id = None,
      c_externalId = gr_placeId geocodeResult,
      c_name = gr_name geocodeResult,
      c_address = gr_address geocodeResult,
      c_coordinates = gr_coordinates geocodeResult,
      c_distance = 0,
      c_bearing = 0,
      c_bearingDiff = None,
      c_confidence = 0,
      c_source = gr_source geocodeResult,
      c_metadata = gr_metadata geocodeResult\<rparr>"

text \<open>
  Step 2: the candidates from the building cache, from the places adapter and, when these
  are fewer than three, from the geocoding fallback. The places adapter is the parameter
  \<open>places\<close>, so that a run with another adapter in its place (one that throws) can be
  stated; \<open>identifyBuilding\<close> below passes \<open>findNearbyPlaces\<close>.
\<close>

definition step2_candidates ::
  "(Env \<Rightarrow> Coordinates \<Rightarrow> real \<Rightarrow> World \<Rightarrow> (error + PlaceResult list) \<times> World)
     \<Rightarrow> Env \<Rightarrow> Coordinates \<Rightarrow> real \<Rightarrow> World
     \<Rightarrow> (error + BuildingCandidate list) \<times> World" where
  "step2_candidates places env userCoordinates searchRadius w =
     (case getCachedBuildings env userCoordinates searchRadius w of
        (Inl e, w1) \<Rightarrow> (Inl e, w1)
      | (Inr cachedBuildings, w1) \<Rightarrow>
          (case places env userCoordinates searchRadius w1 of
             (Inl e, w2) \<Rightarrow> (Inl e, w2)
           | (Inr nearbyPlaces, w2) \<Rightarrow>
               let candidates = cachedBuildings @ map candidate_of_place nearbyPlaces
               in if length candidates < 3
                  then (case reverseGeocode env userCoordinates w2 of
                          (Inl e, w3) \<Rightarrow> (Inl e, w3)
                        | (Inr None, w3) \<Rightarrow> (Inr candidates, w3)
                        | (Inr (Some geocodeResult), w3) \<Rightarrow>
                            (Inr (candidates @ [candidate_of_geocode geocodeResult]), w3))
                  else (Inr candidates, w2)))"

text \<open>Step 3: distance, bearing and bearing difference of a candidate.\<close>

definition step3_bearing ::
  "Coordinates \<Rightarrow> real option \<Rightarrow> BuildingCandidate \<Rightarrow> BuildingCandidate" where
  "step3_bearing userCoordinates heading candidate =
     (let bearingCalc =
            calculateBearingAndDistance userCoordinates (c_coordinates candidate) heading
      in candidate\<lparr>c_distance := bc_distance bearingCalc,
                   c_bearing := bc_bearing bearingCalc,
                   c_bearingDiff := bc_bearingDiff bearingCalc\<rparr>)"

text \<open>Step 4: the confidence of a candidate.\<close>

definition step4_confidence :: "BuildingCandidate \<Rightarrow> BuildingCandidate" where
  "step4_confidence candidate =
     candidate\<lparr>c_confidence :=
       calculateConfidenceScore
         \<lparr>sf_distance = c_distance candidate,
          sf_bearingDiff = c_bearingDiff candidate,
          sf_source = c_source candidate,
          sf_hasName = (case c_name candidate of None \<Rightarrow> False | Some n \<Rightarrow> n \<noteq> []),
          sf_hasRating =
            Some (case c_metadata candidate of
                    None \<Rightarrow> False
                  | Some m \<Rightarrow> m ''rating'' \<noteq> None)\<rparr>\<rparr>"

text \<open>Step 5: the comparator of the sort, \<^verbatim>\<open>(a, b) => b.confidence - a.confidence\<close>.\<close>

definition compareByConfidence :: "BuildingCandidate \<Rightarrow> BuildingCandidate \<Rightarrow> real" where
  "compareByConfidence a b = c_confidence b - c_confidence a"

text \<open>
  Step 6: \<^verbatim>\<open>Promise.allSettled\<close> over the saves of the top candidates. Every save
  runs and its outcome is dropped; the saves are taken one after the other, in the order of
  the array.
\<close>

definition topCandidates :: "BuildingCandidate list \<Rightarrow> BuildingCandidate list" where
  "topCandidates candidates =
     take 5 (filter (\<lambda>c. c_source c \<noteq> cache \<and> c_confidence c > 30) candidates)"

definition allSettled_saves :: "Env \<Rightarrow> BuildingCandidate list \<Rightarrow> World \<Rightarrow> World" where
  "allSettled_saves env cs w = foldl (\<lambda>w' c. snd (saveBuildingToCache env c None w')) w cs"

text \<open>\<^verbatim>\<open>input.searchRadius || env.SEARCH_RADIUS_METERS\<close> and the query point.\<close>

definition searchRadius_of :: "Env \<Rightarrow> IdentifyBuildingInput \<Rightarrow> real" where
  "searchRadius_of env input =
     (case in_searchRadius input of
        None \<Rightarrow> SEARCH_RADIUS_METERS env
      | Some r \<Rightarrow> if r = 0 then SEARCH_RADIUS_METERS env else r)"

definition userCoordinates_of :: "IdentifyBuildingInput \<Rightarrow> Coordinates" where
  "userCoordinates_of input = \<lparr>latitude = in_latitude input, longitude = in_longitude input\<rparr>"

text \<open>Steps 3 and 4 on the gathered candidates, and step 5, the sort.\<close>

definition scored :: "IdentifyBuildingInput \<Rightarrow> BuildingCandidate list \<Rightarrow> BuildingCandidate list" where
  "scored input gathered =
     (let candidates = map (step3_bearing (userCoordinates_of input) (in_heading input)) gathered
      in map step4_confidence candidates)"

definition ranked :: "IdentifyBuildingInput \<Rightarrow> BuildingCandidate list \<Rightarrow> BuildingCandidate list" where
  "ranked input gathered = array_sort compareByConfidence (scored input gathered)"

definition identifyBuilding_with ::
  "(Env \<Rightarrow> Coordinates \<Rightarrow> real \<Rightarrow> World \<Rightarrow> (error + PlaceResult list) \<times> World)
     \<Rightarrow> Env \<Rightarrow> IdentifyBuildingInput \<Rightarrow> World
     \<Rightarrow> (error + IdentifyBuildingResult) \<times> World" where
  "identifyBuilding_with places env input w =
     (let searchRadius = searchRadius_of env input;
          userCoordinates = userCoordinates_of input
      in case getCachedIdentifyResults env userCoordinates (in_heading input) searchRadius w of
           (Inl e, w1) \<Rightarrow> (Inl e, w1)
         | (Inr (Some cachedResults), w1) \<Rightarrow>
             (Inr \<lparr>res_candidates = cachedResults,
                   res_searchRadius = searchRadius,
                   res_searchCenter = userCoordinates,
                   res_heading = in_heading input,
                   res_timestamp = date_now env\<rparr>, w1)
         | (Inr None, w1) \<Rightarrow>
             (case step2_candidates places env userCoordinates searchRadius w1 of
                (Inl e, w2) \<Rightarrow> (Inl e, w2)
              | (Inr gathered, w2) \<Rightarrow>
                  let candidates = ranked input gathered;
                      w3 = allSettled_saves env (topCandidates candidates) w2
                  in case cacheIdentifyResults env userCoordinates (in_heading input)
                            searchRadius candidates w3 of
                       (Inl e, w4) \<Rightarrow> (Inl e, w4)
                     | (Inr u, w4) \<Rightarrow>
                         (Inr \<lparr>res_candidates = candidates,
                               res_searchRadius = searchRadius,
                               res_searchCenter = userCoordinates,
                               res_heading = in_heading input,
                               res_timestamp = date_now env\<rparr>, w4)))"

definition identifyBuilding ::
  "Env \<Rightarrow> IdentifyBuildingInput \<Rightarrow> World \<Rightarrow> (error + IdentifyBuildingResult) \<times> World" where
  "identifyBuilding env input w = identifyBuilding_with findNearbyPlaces env input w"

section \<open>Observations\<close>

text \<open>The candidates \<open>saveBuildingToCache\<close> was called with, in the order of the calls.\<close>

fun saved_candidates :: "call list \<Rightarrow> BuildingCandidate list" where
  "saved_candidates [] = []"
| "saved_candidates (Call_saveBuildingToCache c # cs) = c # saved_candidates cs"
| "saved_candidates (_ # cs) = saved_candidates cs"

text \<open>The value under a key in optional metadata, and in the metadata of the stored rows.\<close>

definition metadata_value :: "Metadata option \<Rightarrow> string \<Rightarrow> jvalue option" where
  "metadata_value metadata k = (case metadata of None \<Rightarrow> None | Some m \<Rightarrow> m k)"

definition stored_values :: "string \<Rightarrow> World \<Rightarrow> jvalue option list" where
  "stored_values k w = map (\<lambda>row. metadata_value (cb_metadata row) k) (cached_buildings w)"

text \<open>
  The four keys \<open>saveBuildingToCache\<close> writes its computed fields under are absent from
  a metadata object.
\<close>

definition no_computed_keys :: "Metadata option \<Rightarrow> bool" where
  "no_computed_keys metadata \<longleftrightarrow>
     metadata_value metadata ''distance'' = None \<and>
     metadata_value metadata ''bearing'' = None \<and>
     metadata_value metadata ''bearingDiff'' = None \<and>
     metadata_value metadata ''confidence'' = None"

text \<open>
  The Redis entries the two adapters would read for a query were written by the adapters:
  the metadata objects in them have the keys the adapters build, so none of the four
  computed keys. The adapters are the only writers of these entries, and a run of
  \<open>identifyBuilding\<close> keeps the property (\<open>identifyBuilding_keeps_adapters\<close> below).
\<close>

definition cached_by_adapters :: "Env \<Rightarrow> IdentifyBuildingInput \<Rightarrow> World \<Rightarrow> bool" where
  "cached_by_adapters env input w \<longleftrightarrow>
     (case redis_places w
             (places_getCacheKey (in_latitude input) (in_longitude input)
                (searchRadius_of env input)) of
        None \<Rightarrow> True
      | Some places \<Rightarrow> list_all (\<lambda>place. no_computed_keys (pr_metadata place)) places) \<and>
     (case redis_geocode w (geocode_getCacheKey (in_latitude input) (in_longitude input)) of
        None \<Rightarrow> True
      | Some result \<Rightarrow> no_computed_keys (gr_metadata result))"

section \<open>Example runs\<close>

text \<open>
  A request at latitude 0, longitude 0 without heading or radius. In \<open>ex_env\<close> no Redis or
  database call fails, the places provider has no result and both geocoding providers time
  out; \<open>ex_env_places\<close> has three places in the response, \<open>ex_env_geocode\<close> a result of
  the first geocoding provider.
\<close>

definition ex_env :: Env where
  "ex_env =
     \<lparr>SEARCH_RADIUS_METERS = 100,
      CACHE_TTL_PLACES = 604800,
      date_now = 0,
      identify_get_fails = None,
      identify_setex_fails = None,
      places_get_fails = None,
      places_setex_fails = None,
      geocode_get_fails = None,
      geocode_setex_fails = None,
      places_response = Inr \<lparr>presp_status = ''ZERO_RESULTS'', presp_results = None\<rparr>,
      google_geocode_try = Inl (Error ''timeout''),
      nominatim_geocode_try = Inl (Error ''timeout''),
      select_fails = None,
      st_dwithin = (\<lambda>row c r. True),
      st_distance = (\<lambda>row c. 0),
      save_fails = (\<lambda>b. None),
      uuid_generate_v4 = (\<lambda>rows. ''id'' @ replicate (length rows) CHR ''x'')\<rparr>"

definition ex_row :: CachedBuilding where
  "ex_row =
     \<lparr>cb_id = ''b1'',
      cb_externalId = Some ''p1'',
      cb_source = ''google_places'',
      cb_name = Some ''Town Hall'',
      cb_address = ''1 Main St'',
      cb_latitude = 0,
      cb_longitude = 0,
      cb_metadata = None,
      cb_createdAt = 0,
      cb_updatedAt = 0,
      cb_expiresAt = None\<rparr>"

definition ex_world :: "CachedBuilding list \<Rightarrow> World" where
  "ex_world rows =
     \<lparr>redis_identify = Map.empty,
      redis_places = Map.empty,
      redis_geocode = Map.empty,
      cached_buildings = rows,
      calls = []\<rparr>"

definition ex_input :: IdentifyBuildingInput where
  "ex_input = \<lparr>in_latitude = 0, in_longitude = 0, in_heading = None, in_searchRadius = None\<rparr>"

definition ex_raw :: "string \<Rightarrow> real option \<Rightarrow> RawPlace" where
  "ex_raw n rating =
     \<lparr>rp_place_id = ''place-'' @ n,
      rp_name = n,
      rp_vicinity = Some ''Main St'',
      rp_formatted_address = None,
      rp_location = Some \<lparr>latitude = 0, longitude = 0\<rparr>,
      rp_types = Some [''cafe'', ''establishment''],
      rp_rating = rating,
      rp_user_ratings_total = None,
      rp_business_status = None,
      rp_icon = None,
      rp_photos = None,
      rp_plus_code = None,
      rp_price_level = None\<rparr>"

definition ex_env_places :: Env where
  "ex_env_places =
     ex_env\<lparr>places_response :=
       Inr \<lparr>presp_status = ''OK'',
            presp_results = Some [ex_raw ''B'' None, ex_raw ''A'' (Some 4), ex_raw ''C'' (Some 5)]\<rparr>\<rparr>"

definition ex_gathered :: "BuildingCandidate list" where
  "ex_gathered =
     map candidate_of_place
       (transform_places [ex_raw ''B'' None, ex_raw ''A'' (Some 4), ex_raw ''C'' (Some 5)])"

definition ex_places_throws ::
  "Env \<Rightarrow> Coordinates \<Rightarrow> real \<Rightarrow> World \<Rightarrow> (error + PlaceResult list) \<times> World" where
  "ex_places_throws env coordinates radius w = (Inl (Error ''quota exceeded''), w)"

definition ex_google :: GoogleResult where
  "ex_google =
     \<lparr>gres_name = None,
      gres_formatted_address = ''3 Main St'',
      gres_location = \<lparr>latitude = 0, longitude = 0\<rparr>,
      gres_place_id = Some ''g1'',
      gres_address_components = None,
      gres_location_type = Some (JStr ''ROOFTOP''),
      gres_types = None\<rparr>"

definition ex_geocoded :: GeocodingResult where
  "ex_geocoded =
     \<lparr>gr_name = None,
      gr_address = ''3 Main St'',
      gr_coordinates = \<lparr>latitude = 0, longitude = 0\<rparr>,
      gr_placeId = Some ''g1'',
      gr_source = google_geocoding,
      gr_metadata =
        Some (Map.empty
          (''addressComponents'' := None,
           ''locationType'' := Some (JStr ''ROOFTOP''),
           ''types'' := None))\<rparr>"

definition ex_env_geocode :: Env where
  "ex_env_geocode = ex_env\<lparr>google_geocode_try := Inr (Some ex_google)\<rparr>"

definition ex_candidate :: BuildingCandidate where
  "ex_candidate =
     \<lparr>c_id = None,
      c_externalId = Some ''p9'',
      c_name = None,
      c_address = ''2 Main St'',
      c_coordinates = \<lparr>latitude = 0, longitude = 0\<rparr>,
      c_distance = 12,
      c_bearing = 90,
      c_bearingDiff = None,
      c_confidence = 50,
      c_source = nominatim,
      c_metadata = Some [''osmType'' \<mapsto> JStr ''way'', ''confidence'' \<mapsto> JNum 9]\<rparr>"

definition ex_world_hit :: World where
  "ex_world_hit =
     (ex_world [ex_row])
       \<lparr>redis_identify := [getIdentifyCacheKey 0 0 None 100 \<mapsto> [ex_candidate]]\<rparr>"

text \<open>The first candidate the example run persists.\<close>

definition ex_top :: BuildingCandidate where
  "ex_top = hd (topCandidates (ranked ex_input (candidate_of_cached ex_row # ex_gathered)))"

section \<open>Properties of the scoring engine\<close>

lemma math_round_mono: "x \<le> y \<Longrightarrow> math_round x \<le> math_round y"
  by (simp add: math_round_def floor_mono)

lemma math_round_int: "math_round (of_int n) = of_int n"
  unfolding math_round_def by (simp add: floor_eq_iff)

lemma calculateDistanceScore_range:
  "0 \<le> calculateDistanceScore d \<and> calculateDistanceScore d \<le> 1"
  by (simp add: calculateDistanceScore_def Let_def)

lemma calculateSourceScore_range:
  "0 \<le> calculateSourceScore s \<and> calculateSourceScore s \<le> 1"
  by (cases s) (simp_all add: calculateSourceScore_def)

lemma calculateMetadataScore_range:
  "0 \<le> calculateMetadataScore n r \<and> calculateMetadataScore n r \<le> 1"
  by (simp add: calculateMetadataScore_def Let_def)

lemma calculateConfidenceScore_raw:
  "calculateConfidenceScore f = math_round (rawScore f * 100 * 100) / 100"
  by (simp add: calculateConfidenceScore_def rawScore_def Let_def)

lemma calculateDistanceScore_antimono:
  "d1 \<le> d2 \<Longrightarrow> calculateDistanceScore d2 \<le> calculateDistanceScore d1"
  by (auto simp add: calculateDistanceScore_def Let_def min_def max_def)

lemma calculateBearingScore_antimono:
  "b1 \<le> b2 \<Longrightarrow> calculateBearingScore (Some b2) \<le> calculateBearingScore (Some b1)"
  by (auto simp add: calculateBearingScore_def Let_def min_def max_def field_simps)

lemma calculateConfidenceScore_mono_raw:
  "rawScore f \<le> rawScore g \<Longrightarrow> calculateConfidenceScore f \<le> calculateConfidenceScore g"
  unfolding calculateConfidenceScore_raw
  by (intro divide_right_mono math_round_mono) simp_all

text \<open>
  Claim C8. With the other factors fixed, a larger distance (from 0 on) never gives a
  larger score, and a larger present bearing difference (within 0 to 180) never gives a
  larger score.
\<close>

theorem calculateConfidenceScore_monotone:
  assumes "0 \<le> d1" "d1 \<le> d2" "0 \<le> b1" "b1 \<le> b2" "b2 \<le> 180"
  shows "calculateConfidenceScore
           \<lparr>sf_distance = d2, sf_bearingDiff = bd, sf_source = s, sf_hasName = n,
            sf_hasRating = r\<rparr>
         \<le> calculateConfidenceScore
           \<lparr>sf_distance = d1, sf_bearingDiff = bd, sf_source = s, sf_hasName = n,
            sf_hasRating = r\<rparr>
       \<and> calculateConfidenceScore
           \<lparr>sf_distance = d, sf_bearingDiff = Some b2, sf_source = s, sf_hasName = n,
            sf_hasRating = r\<rparr>
         \<le> calculateConfidenceScore
           \<lparr>sf_distance = d, sf_bearingDiff = Some b1, sf_source = s, sf_hasName = n,
            sf_hasRating = r\<rparr>"
proof
  show "calculateConfidenceScore
           \<lparr>sf_distance = d2, sf_bearingDiff = bd, sf_source = s, sf_hasName = n,
            sf_hasRating = r\<rparr>
         \<le> calculateConfidenceScore
           \<lparr>sf_distance = d1, sf_bearingDiff = bd, sf_source = s, sf_hasName = n,
            sf_hasRating = r\<rparr>"
    using calculateDistanceScore_antimono [OF assms(2)]
    by (intro calculateConfidenceScore_mono_raw) (simp add: rawScore_def)
  show "calculateConfidenceScore
           \<lparr>sf_distance = d, sf_bearingDiff = Some b2, sf_source = s, sf_hasName = n,
            sf_hasRating = r\<rparr>
         \<le> calculateConfidenceScore
           \<lparr>sf_distance = d, sf_bearingDiff = Some b1, sf_source = s, sf_hasName = n,
            sf_hasRating = r\<rparr>"
    using calculateBearingScore_antimono [OF assms(4)]
    by (intro calculateConfidenceScore_mono_raw) (simp add: rawScore_def)
qed

theorem calculateConfidenceScore_monotone_witness:
  "(0::real) \<le> 5 \<and> (5::real) \<le> 10 \<and> (0::real) \<le> 15 \<and> (15::real) \<le> 90 \<and> (90::real) \<le> 180 \<and>
   calculateConfidenceScore
     \<lparr>sf_distance = 10, sf_bearingDiff = None, sf_source = google_places, sf_hasName = True,
      sf_hasRating = None\<rparr>
   \<le> calculateConfidenceScore
     \<lparr>sf_distance = 5, sf_bearingDiff = None, sf_source = google_places, sf_hasName = True,
      sf_hasRating = None\<rparr>
   \<and> calculateConfidenceScore
     \<lparr>sf_distance = 5, sf_bearingDiff = Some 90, sf_source = google_places, sf_hasName = True,
      sf_hasRating = None\<rparr>
   \<le> calculateConfidenceScore
     \<lparr>sf_distance = 5, sf_bearingDiff = Some 15, sf_source = google_places, sf_hasName = True,
      sf_hasRating = None\<rparr>"
  using calculateConfidenceScore_monotone [of 5 10 15 90 None google_places True None 5]
  by simp

text \<open>
  Claim C10. Without a bearing difference the score is at most 85, and a
  \<open>google_places\<close> candidate within 10 metres that has a name and a rating scores exactly 85.
\<close>

theorem calculateConfidenceScore_no_heading:
  assumes "d \<le> 10"
  shows "calculateConfidenceScore (f\<lparr>sf_bearingDiff := None\<rparr>) \<le> 85 \<and>
     calculateConfidenceScore
       \<lparr>sf_distance = d, sf_bearingDiff = None, sf_source = google_places,
        sf_hasName = True, sf_hasRating = Some True\<rparr> = 85"
proof
  let ?g = "f\<lparr>sf_bearingDiff := None\<rparr>"
  note d = calculateDistanceScore_range [of "sf_distance f"]
  note s = calculateSourceScore_range [of "sf_source f"]
  note m = calculateMetadataScore_range [of "sf_hasName f" "sf_hasRating f"]
  have "rawScore ?g \<le> 0.85"
    unfolding rawScore_def using d s m by (simp add: calculateBearingScore_def)
  then have "rawScore ?g * 100 * 100 \<le> 8500" by simp
  then have "math_round (rawScore ?g * 100 * 100) \<le> math_round 8500"
    by (rule math_round_mono)
  then show "calculateConfidenceScore ?g \<le> 85"
    using math_round_int [of 8500] by (simp add: calculateConfidenceScore_raw)
  show "calculateConfidenceScore
       \<lparr>sf_distance = d, sf_bearingDiff = None, sf_source = google_places,
        sf_hasName = True, sf_hasRating = Some True\<rparr> = 85"
    using assms math_round_int [of 8500]
    by (simp add: calculateConfidenceScore_def calculateDistanceScore_def
        calculateBearingScore_def calculateSourceScore_def calculateMetadataScore_def)
qed

theorem calculateConfidenceScore_no_heading_witness:
  "(3::real) \<le> 10 \<and>
   calculateConfidenceScore
     (\<lparr>sf_distance = 0, sf_bearingDiff = Some 0, sf_source = google_places,
       sf_hasName = True, sf_hasRating = Some True\<rparr>\<lparr>sf_bearingDiff := None\<rparr>) \<le> 85 \<and>
   calculateConfidenceScore
     \<lparr>sf_distance = 3, sf_bearingDiff = None, sf_source = google_places,
      sf_hasName = True, sf_hasRating = Some True\<rparr> = 85"
  using calculateConfidenceScore_no_heading [of 3
    "\<lparr>sf_distance = 0, sf_bearingDiff = Some 0, sf_source = google_places,
      sf_hasName = True, sf_hasRating = Some True\<rparr>"]
  by simp

section \<open>Properties of the bearing difference\<close>

lemma js_rem_id: "0 \<le> x \<Longrightarrow> x < m \<Longrightarrow> js_rem x m = x"
  by (simp add: js_rem_def floor_eq_iff)

lemma normalizeBearing_id: "0 \<le> x \<Longrightarrow> x < 360 \<Longrightarrow> normalizeBearing x = x"
  by (simp add: normalizeBearing_def js_rem_id)

lemma calculateBearingDifference_sym:
  "calculateBearingDifference x y = calculateBearingDifference y x"
  by (simp add: calculateBearingDifference_def Let_def abs_minus_commute)

text \<open>
  Claim C9. For bearings \<open>x\<close> and \<open>y\<close> from 0 up to, not including, 360 the difference lies
  between 0 and 180 and does not depend on the order of the two; across the wrap-around,
  350 and 10 differ by 20, and 1 and 359 by 2.
\<close>

theorem calculateBearingDifference_range_sym:
  assumes "0 \<le> x" "x < 360" "0 \<le> y" "y < 360"
  shows "0 \<le> calculateBearingDifference x y \<and> calculateBearingDifference x y \<le> 180 \<and>
         calculateBearingDifference x y = calculateBearingDifference y x \<and>
         calculateBearingDifference 350 10 = 20 \<and> calculateBearingDifference 1 359 = 2"
proof -
  have "calculateBearingDifference 350 10 = 20" "calculateBearingDifference 1 359 = 2"
    by (simp_all add: calculateBearingDifference_def normalizeBearing_id)
  moreover have "0 \<le> calculateBearingDifference x y \<and> calculateBearingDifference x y \<le> 180"
    using assms by (auto simp add: calculateBearingDifference_def normalizeBearing_id Let_def)
  ultimately show ?thesis using calculateBearingDifference_sym [of x y] by simp
qed

theorem calculateBearingDifference_range_sym_witness:
  "(0::real) \<le> 270 \<and> (270::real) < 360 \<and> (0::real) \<le> 45 \<and> (45::real) < 360 \<and>
   0 \<le> calculateBearingDifference 270 45 \<and> calculateBearingDifference 270 45 \<le> 180 \<and>
   calculateBearingDifference 270 45 = calculateBearingDifference 45 270 \<and>
   calculateBearingDifference 350 10 = 20 \<and> calculateBearingDifference 1 359 = 2"
  using calculateBearingDifference_range_sym [of 270 45] by simp

section \<open>Properties of the services\<close>

lemma getCachedIdentifyResults_eq:
  "getCachedIdentifyResults env c h r w =
     (Inr (if identify_get_fails env = None
           then redis_identify w (getIdentifyCacheKey (latitude c) (longitude c) h r)
           else None),
      log_call Call_getCachedIdentifyResults w)"
  by (simp add: getCachedIdentifyResults_def Let_def log_call_def split: option.splits)

lemma getCachedBuildings_eq:
  "getCachedBuildings env c r w =
     (Inr (case findBuildingsNearLocation env c r w of
             Inr bs \<Rightarrow> map candidate_of_cached bs
           | Inl e \<Rightarrow> []),
      log_call Call_getCachedBuildings w)"
  by (simp add: getCachedBuildings_def Let_def log_call_def findBuildingsNearLocation_def
      split: option.splits sum.splits)

lemma findNearbyPlaces_Inr:
  "\<exists>ps. fst (findNearbyPlaces env c r w) = Inr ps"
  by (simp add: findNearbyPlaces_def Let_def split: prod.splits sum.splits)

lemma reverseGeocode_Inr:
  "\<exists>g. fst (reverseGeocode env c w) = Inr g"
  by (simp add: reverseGeocode_def Let_def split: prod.splits sum.splits)

lemma cacheIdentifyResults_eq:
  "cacheIdentifyResults env c h r cs w =
     (Inr (),
      if identify_setex_fails env = None
      then (log_call (Call_cacheIdentifyResults cs) w)
             \<lparr>redis_identify :=
                (redis_identify w)(getIdentifyCacheKey (latitude c) (longitude c) h r \<mapsto> cs)\<rparr>
      else log_call (Call_cacheIdentifyResults cs) w)"
  by (simp add: cacheIdentifyResults_def Let_def log_call_def split: option.splits)

lemma calls_cacheIdentifyResults:
  "calls (snd (cacheIdentifyResults env c h r cs w)) = calls w @ [Call_cacheIdentifyResults cs]"
  by (simp add: cacheIdentifyResults_eq log_call_def)

lemma step2_candidates_Inl:
  "fst (step2_candidates places env c r w) = Inl e \<longleftrightarrow>
   fst (places env c r (log_call Call_getCachedBuildings w)) = Inl e"
proof -
  obtain ps w2 where p: "places env c r (log_call Call_getCachedBuildings w) = (ps, w2)"
    by (cases "places env c r (log_call Call_getCachedBuildings w)")
  obtain g w3 where g: "reverseGeocode env c w2 = (Inr g, w3)"
    using reverseGeocode_Inr [of env c w2] by (cases "reverseGeocode env c w2") auto
  show ?thesis
    by (cases ps; cases g) (simp_all add: step2_candidates_def getCachedBuildings_eq p g Let_def)
qed

lemma identifyBuilding_with_Inl:
  "fst (identifyBuilding_with places env input w) = Inl e \<longleftrightarrow>
     fst (getCachedIdentifyResults env (userCoordinates_of input) (in_heading input)
            (searchRadius_of env input) w) = Inr None \<and>
     fst (places env (userCoordinates_of input) (searchRadius_of env input)
            (log_call Call_getCachedBuildings (log_call Call_getCachedIdentifyResults w))) = Inl e"
proof -
  let ?w1 = "log_call Call_getCachedIdentifyResults w"
  let ?c = "userCoordinates_of input" and ?r = "searchRadius_of env input"
  obtain res w2 where s: "step2_candidates places env ?c ?r ?w1 = (res, w2)"
    by (cases "step2_candidates places env ?c ?r ?w1")
  have i: "res = Inl e \<longleftrightarrow> fst (places env ?c ?r (log_call Call_getCachedBuildings ?w1)) = Inl e"
    using step2_candidates_Inl [of places env ?c ?r ?w1 e] s by simp
  show ?thesis
    using i
    by (cases res)
       (auto simp add: identifyBuilding_with_def getCachedIdentifyResults_eq s
          cacheIdentifyResults_eq Let_def split: option.splits)
qed

lemma identifyBuilding_never_throws:
  "fst (identifyBuilding env input w) \<noteq> Inl e"
  using findNearbyPlaces_Inr
    [of env "userCoordinates_of input" "searchRadius_of env input"
      "log_call Call_getCachedBuildings (log_call Call_getCachedIdentifyResults w)"]
  by (auto simp add: identifyBuilding_def identifyBuilding_with_Inl)

lemma step2_candidates_empty:
  assumes "fst (getCachedBuildings env c r w) = Inr []"
    and "fst (places env c r (log_call Call_getCachedBuildings w)) = Inr []"
    and "fst (reverseGeocode env c (snd (places env c r (log_call Call_getCachedBuildings w)))) = Inr None"
  shows "fst (step2_candidates places env c r w) = Inr []"
  using assms
  by (auto simp add: step2_candidates_def getCachedBuildings_eq Let_def
      split: prod.splits sum.splits option.splits)

lemma step2_candidates_eq:
  assumes "fst (getCachedBuildings env c r w) = Inr cached"
    and "findNearbyPlaces env c r (log_call Call_getCachedBuildings w) = (Inr nearby, w2)"
  shows "step2_candidates findNearbyPlaces env c r w =
     (if length cached + length nearby < 3
      then (Inr (cached @ map candidate_of_place nearby @
                 (case fst (reverseGeocode env c w2) of
                    Inr (Some g) \<Rightarrow> [candidate_of_geocode g]
                  | _ \<Rightarrow> [])),
            snd (reverseGeocode env c w2))
      else (Inr (cached @ map candidate_of_place nearby), w2))"
proof -
  obtain g w3 where g: "reverseGeocode env c w2 = (Inr g, w3)"
    using reverseGeocode_Inr [of env c w2] by (cases "reverseGeocode env c w2") auto
  show ?thesis
    using assms
    by (cases g) (auto simp add: step2_candidates_def getCachedBuildings_eq Let_def g)
qed

lemma identifyBuilding_with_miss:
  assumes "fst (getCachedIdentifyResults env (userCoordinates_of input) (in_heading input)
            (searchRadius_of env input) w) = Inr None"
    and "fst (step2_candidates places env (userCoordinates_of input) (searchRadius_of env input)
            (log_call Call_getCachedIdentifyResults w)) = Inr gathered"
  shows "fst (identifyBuilding_with places env input w) =
     Inr \<lparr>res_candidates = ranked input gathered,
          res_searchRadius = searchRadius_of env input,
          res_searchCenter = userCoordinates_of input,
          res_heading = in_heading input,
          res_timestamp = date_now env\<rparr>"
  using assms
  by (auto simp add: identifyBuilding_with_def getCachedIdentifyResults_eq
      cacheIdentifyResults_eq Let_def split: option.splits prod.splits sum.splits)

lemma identifyBuilding_with_miss_world:
  assumes "fst (getCachedIdentifyResults env (userCoordinates_of input) (in_heading input)
            (searchRadius_of env input) w) = Inr None"
    and "step2_candidates places env (userCoordinates_of input) (searchRadius_of env input)
            (log_call Call_getCachedIdentifyResults w) = (Inr gathered, w2)"
  shows "snd (identifyBuilding_with places env input w) =
     snd (cacheIdentifyResults env (userCoordinates_of input) (in_heading input)
            (searchRadius_of env input) (ranked input gathered)
            (allSettled_saves env (topCandidates (ranked input gathered)) w2))"
  using assms
  by (auto simp add: identifyBuilding_with_def getCachedIdentifyResults_eq
      Let_def split: option.splits prod.splits sum.splits)

section \<open>Properties of the sort\<close>

lemma array_sort_Nil: "array_sort f [] = []"
  by (simp add: array_sort_def)

lemma set_array_sort_insert: "set (array_sort_insert f x ys) = insert x (set ys)"
  by (induction ys) auto

lemma sorted_array_sort_insert:
  "sorted_wrt (\<lambda>a b. c_confidence b \<le> c_confidence a) ys \<Longrightarrow>
   sorted_wrt (\<lambda>a b. c_confidence b \<le> c_confidence a)
     (array_sort_insert compareByConfidence x ys)"
  by (induction ys) (auto simp add: set_array_sort_insert compareByConfidence_def)

lemma sorted_array_sort:
  "sorted_wrt (\<lambda>a b. c_confidence b \<le> c_confidence a) (array_sort compareByConfidence xs)"
  unfolding array_sort_def by (induction xs) (simp_all add: sorted_array_sort_insert)

lemma filter_array_sort_insert:
  "filter (\<lambda>c. c_confidence c = v) (array_sort_insert compareByConfidence x ys) =
   filter (\<lambda>c. c_confidence c = v) (x # ys)"
  by (induction ys) (auto simp add: compareByConfidence_def)

lemma filter_array_sort:
  "filter (\<lambda>c. c_confidence c = v) (array_sort compareByConfidence xs) =
   filter (\<lambda>c. c_confidence c = v) xs"
  unfolding array_sort_def by (induction xs) (simp_all add: filter_array_sort_insert)

lemma length_array_sort_insert: "length (array_sort_insert f x ys) = Suc (length ys)"
  by (induction ys) auto

lemma length_array_sort: "length (array_sort f xs) = length xs"
  unfolding array_sort_def by (induction xs) (simp_all add: length_array_sort_insert)

section \<open>The record of calls\<close>

lemma saved_candidates_append:
  "saved_candidates (xs @ ys) = saved_candidates xs @ saved_candidates ys"
  by (induction xs rule: saved_candidates.induct) simp_all

lemma saved_candidates_map: "saved_candidates (map Call_saveBuildingToCache cs) = cs"
  by (induction cs) simp_all

lemma calls_findNearbyPlaces:
  "calls (snd (findNearbyPlaces env c r w)) = calls w @ [Call_findNearbyPlaces]"
  by (simp add: findNearbyPlaces_def findNearbyPlaces_try_def Let_def log_call_def
      split: option.splits sum.splits)

lemma calls_reverseGeocode:
  "calls (snd (reverseGeocode env c w)) = calls w @ [Call_reverseGeocode]"
  by (simp add: reverseGeocode_def reverseGeocode_try_def Let_def log_call_def
      split: option.splits sum.splits)

lemma calls_saveBuildingToDatabase:
  "calls (snd (saveBuildingToDatabase env b w)) = calls w"
  by (simp add: saveBuildingToDatabase_def Let_def split: option.splits)

lemma calls_saveBuildingToCache:
  "calls (snd (saveBuildingToCache env c ttl w)) = calls w @ [Call_saveBuildingToCache c]"
  by (simp add: saveBuildingToCache_def Let_def calls_saveBuildingToDatabase log_call_def)

lemma calls_allSettled_saves:
  "calls (allSettled_saves env cs w) = calls w @ map Call_saveBuildingToCache cs"
  unfolding allSettled_saves_def
  by (induction cs arbitrary: w) (simp_all add: calls_saveBuildingToCache)

lemma saved_step2:
  "saved_candidates (calls (snd (step2_candidates findNearbyPlaces env c r w))) =
   saved_candidates (calls w)"
proof -
  obtain cached where a: "fst (getCachedBuildings env c r w) = Inr cached"
    by (simp add: getCachedBuildings_eq)
  obtain nearby w2 where b: "findNearbyPlaces env c r (log_call Call_getCachedBuildings w) = (Inr nearby, w2)"
    using findNearbyPlaces_Inr [of env c r "log_call Call_getCachedBuildings w"]
    by (cases "findNearbyPlaces env c r (log_call Call_getCachedBuildings w)") auto
  have c2: "calls w2 = calls w @ [Call_getCachedBuildings, Call_findNearbyPlaces]"
    using calls_findNearbyPlaces [of env c r "log_call Call_getCachedBuildings w"] b
    by (simp add: log_call_def)
  show ?thesis
    unfolding step2_candidates_eq [OF a b]
    by (simp add: c2 calls_reverseGeocode saved_candidates_append)
qed

lemma saved_identifyBuilding:
  assumes "fst (getCachedIdentifyResults env (userCoordinates_of input) (in_heading input)
            (searchRadius_of env input) w) = Inr None"
    and "fst (step2_candidates findNearbyPlaces env (userCoordinates_of input)
            (searchRadius_of env input) (log_call Call_getCachedIdentifyResults w)) = Inr gathered"
  shows "saved_candidates (calls (snd (identifyBuilding env input w))) =
         saved_candidates (calls w) @ topCandidates (ranked input gathered)"
proof -
  let ?c = "userCoordinates_of input" and ?r = "searchRadius_of env input"
  let ?w1 = "log_call Call_getCachedIdentifyResults w"
  obtain w2 where s: "step2_candidates findNearbyPlaces env ?c ?r ?w1 = (Inr gathered, w2)"
    using assms(2) by (cases "step2_candidates findNearbyPlaces env ?c ?r ?w1") auto
  have "saved_candidates (calls w2) = saved_candidates (calls ?w1)"
    using saved_step2 [of env ?c ?r ?w1] s by simp
  then have w2: "saved_candidates (calls w2) = saved_candidates (calls w)"
    by (simp add: log_call_def saved_candidates_append)
  show ?thesis
    unfolding identifyBuilding_def identifyBuilding_with_miss_world [OF assms(1) s]
    by (simp add: calls_cacheIdentifyResults calls_allSettled_saves saved_candidates_append
        saved_candidates_map w2)
qed

section \<open>The saves do not reach the result\<close>

lemma findNearbyPlaces_try_save_indep:
  "findNearbyPlaces_try (env\<lparr>save_fails := f, uuid_generate_v4 := u\<rparr>) c r w =
   findNearbyPlaces_try env c r w"
  by (simp add: findNearbyPlaces_try_def Let_def split: option.splits sum.splits)

lemma findNearbyPlaces_save_indep:
  "findNearbyPlaces (env\<lparr>save_fails := f, uuid_generate_v4 := u\<rparr>) = findNearbyPlaces env"
  by (intro ext) (simp add: findNearbyPlaces_def findNearbyPlaces_try_save_indep)

lemma reverseGeocode_try_save_indep:
  "reverseGeocode_try (env\<lparr>save_fails := f, uuid_generate_v4 := u\<rparr>) c w =
   reverseGeocode_try env c w"
  by (simp add: reverseGeocode_try_def geocodeWithGoogle_def geocodeWithNominatim_def Let_def
      split: option.splits sum.splits)

lemma reverseGeocode_save_indep:
  "reverseGeocode (env\<lparr>save_fails := f, uuid_generate_v4 := u\<rparr>) = reverseGeocode env"
  by (intro ext) (simp add: reverseGeocode_def reverseGeocode_try_save_indep)

lemma getCachedBuildings_save_indep:
  "getCachedBuildings (env\<lparr>save_fails := f, uuid_generate_v4 := u\<rparr>) = getCachedBuildings env"
  by (intro ext)
     (simp add: getCachedBuildings_def findBuildingsNearLocation_def Let_def
        split: option.splits sum.splits)

lemma step2_candidates_save_indep:
  "step2_candidates findNearbyPlaces (env\<lparr>save_fails := f, uuid_generate_v4 := u\<rparr>) c r w =
   step2_candidates findNearbyPlaces env c r w"
  unfolding step2_candidates_def findNearbyPlaces_save_indep reverseGeocode_save_indep
    getCachedBuildings_save_indep
  by (rule refl)

lemma identifyBuilding_save_indep:
  "fst (identifyBuilding (env\<lparr>save_fails := f, uuid_generate_v4 := u\<rparr>) input w) =
   fst (identifyBuilding env input w)"
proof -
  let ?env = "env\<lparr>save_fails := f, uuid_generate_v4 := u\<rparr>"
  let ?c = "userCoordinates_of input" and ?r = "searchRadius_of env input"
  let ?w1 = "log_call Call_getCachedIdentifyResults w"
  have r: "searchRadius_of ?env input = ?r"
    by (simp add: searchRadius_of_def split: option.splits)
  have g: "getCachedIdentifyResults ?env ?c (in_heading input) ?r w =
           getCachedIdentifyResults env ?c (in_heading input) ?r w"
    by (simp add: getCachedIdentifyResults_eq)
  obtain res w2 where s: "step2_candidates findNearbyPlaces env ?c ?r ?w1 = (res, w2)"
    by (cases "step2_candidates findNearbyPlaces env ?c ?r ?w1")
  have s': "step2_candidates findNearbyPlaces ?env ?c ?r ?w1 = (res, w2)"
    using s by (simp add: step2_candidates_save_indep)
  show ?thesis
    unfolding identifyBuilding_def identifyBuilding_with_def r
    by (cases res)
       (simp_all add: getCachedIdentifyResults_eq s s' cacheIdentifyResults_eq Let_def
          split: option.splits)
qed

section \<open>What a save stores\<close>

lemma merged_metadata_computed:
  "merged_metadata c ''distance'' = Some (JNum (c_distance c)) \<and>
   merged_metadata c ''bearing'' = Some (JNum (c_bearing c)) \<and>
   merged_metadata c ''bearingDiff'' = map_option JNum (c_bearingDiff c) \<and>
   merged_metadata c ''confidence'' = Some (JNum (c_confidence c))"
  by (simp add: merged_metadata_def)

lemma merged_metadata_other:
  "k \<notin> {''distance'', ''bearing'', ''bearingDiff'', ''confidence''} \<Longrightarrow>
   merged_metadata c k = (case c_metadata c of None \<Rightarrow> None | Some m \<Rightarrow> m k)"
  by (simp add: merged_metadata_def split: option.splits)

lemma fresh_id_no_row:
  "i \<notin> cb_id ` set rows \<Longrightarrow> row \<in> set rows \<Longrightarrow> cb_id row \<noteq> i"
  by force

lemma updated_rows:
  fixes upd :: "CachedBuilding \<Rightarrow> CachedBuilding"
  assumes "existing \<in> set rows" and "\<And>row. cb_id (upd row) = cb_id row"
    and "\<And>row. cb_metadata (upd row) = m"
  shows "(\<exists>row \<in> set (map (\<lambda>row. if cb_id row = cb_id existing then upd row else row) rows).
            cb_id row = cb_id existing) \<and>
         (\<forall>row \<in> set (map (\<lambda>row. if cb_id row = cb_id existing then upd row else row) rows).
            cb_id row = cb_id existing \<longrightarrow> cb_metadata row = m)"
proof
  have "upd existing \<in> set (map (\<lambda>row. if cb_id row = cb_id existing then upd row else row) rows)"
    using assms(1) by (auto simp add: image_iff intro!: bexI [of _ existing])
  then show "\<exists>row \<in> set (map (\<lambda>row. if cb_id row = cb_id existing then upd row else row) rows).
            cb_id row = cb_id existing"
    using assms(2) by blast
  show "\<forall>row \<in> set (map (\<lambda>row. if cb_id row = cb_id existing then upd row else row) rows).
            cb_id row = cb_id existing \<longrightarrow> cb_metadata row = m"
    using assms(2,3) by auto
qed

lemma saveBuildingToDatabase_stored:
  assumes "saveBuildingToDatabase env b w = (Inr i, w')"
  shows "(\<exists>row \<in> set (cached_buildings w'). cb_id row = i) \<and>
         (\<forall>row \<in> set (cached_buildings w'). cb_id row = i \<longrightarrow> cb_metadata row = bd_metadata b)"
proof (cases "save_fails env b")
  case (Some e)
  then show ?thesis using assms by (simp add: saveBuildingToDatabase_def)
next
  case None
  show ?thesis
  proof (cases "or_null (bd_externalId b)")
    case n: None
    then show ?thesis using assms None
      by (auto simp add: saveBuildingToDatabase_def Let_def split: if_splits dest: fresh_id_no_row)
  next
    case s: (Some x)
    show ?thesis
    proof (cases "getBuildingByExternalId x (bd_source b) w")
      case g: None
      then show ?thesis using assms None s
        by (auto simp add: saveBuildingToDatabase_def Let_def split: if_splits dest: fresh_id_no_row)
    next
      case g: (Some existing)
      then have mem: "existing \<in> set (cached_buildings w)"
        by (auto simp add: getBuildingByExternalId_def find_Some_iff)
      show ?thesis
      proof (cases "or_null (Some (cb_id existing))")
        case o: None
        then show ?thesis using assms None s g
          by (auto simp add: saveBuildingToDatabase_def Let_def split: if_splits dest: fresh_id_no_row)
      next
        case o: (Some j)
        then have j: "j = cb_id existing"
          by (simp add: or_null_def split: if_splits)
        have i: "i = cb_id existing"
          and rows: "cached_buildings w' =
                map (\<lambda>row. if cb_id row = cb_id existing
                            then row\<lparr>cb_name := or_null (bd_name b),
                                     cb_address := bd_address b,
                                     cb_latitude := bd_latitude b,
                                     cb_longitude := bd_longitude b,
                                     cb_metadata := bd_metadata b,
                                     cb_updatedAt := date_now env,
                                     cb_expiresAt := bd_expiresAt b\<rparr>
                            else row)
                  (cached_buildings w)"
          using assms None s g o j by (auto simp add: saveBuildingToDatabase_def Let_def)
        show ?thesis
          unfolding i rows by (rule updated_rows [OF mem]) simp_all
      qed
    qed
  qed
qed

section \<open>The example runs\<close>

lemma ex_geo: "calculateBearingAndDistance \<lparr>latitude = 0, longitude = 0\<rparr> \<lparr>latitude = 0, longitude = 0\<rparr> None
   = \<lparr>bc_distance = 0, bc_bearing = 0, bc_bearingDiff = None\<rparr>"
  by (simp add: calculateBearingAndDistance_def calculateDistance_def calculateBearing_def
      toRadians_def toDegrees_def math_atan2_def normalizeBearing_def js_rem_def Let_def)

lemmas ex_services =
  findBuildingsNearLocation_def findNearbyPlaces_def findNearbyPlaces_try_def
  reverseGeocode_def reverseGeocode_try_def geocodeWithGoogle_def geocodeWithNominatim_def
  transform_places_def List.map_filter_simps log_call_def Let_def

lemmas ex_defs = ex_env_def ex_world_def ex_input_def userCoordinates_of_def searchRadius_of_def

lemma ex_ranked:
  "ranked ex_input [candidate_of_cached ex_row] =
    [\<lparr>c_id = Some ''b1'', c_externalId = Some ''p1'', c_name = Some ''Town Hall'',
      c_address = ''1 Main St'', c_coordinates = \<lparr>latitude = 0, longitude = 0\<rparr>,
      c_distance = 0, c_bearing = 0, c_bearingDiff = None, c_confidence = 75,
      c_source = cache, c_metadata = None\<rparr>]"
  by (simp add: ranked_def scored_def ex_input_def userCoordinates_of_def candidate_of_cached_def ex_row_def
      step3_bearing_def ex_geo step4_confidence_def array_sort_def
      calculateConfidenceScore_def calculateDistanceScore_def calculateBearingScore_def
      calculateSourceScore_def calculateMetadataScore_def math_round_def)

lemma ex_miss:
  "fst (getCachedIdentifyResults ex_env_places (userCoordinates_of ex_input) (in_heading ex_input)
          (searchRadius_of ex_env_places ex_input) (ex_world rows)) = Inr None"
  by (simp add: getCachedIdentifyResults_eq ex_world_def)

lemma ex_transform: "length (transform_places [ex_raw ''B'' None, ex_raw ''A'' (Some 4), ex_raw ''C'' (Some 5)]) = 3"
  by (simp add: transform_places_def List.map_filter_simps ex_raw_def BUILDING_TYPES_def)

lemma ex_step2_places:
  "fst (step2_candidates findNearbyPlaces ex_env_places (userCoordinates_of ex_input)
          (searchRadius_of ex_env_places ex_input)
          (log_call Call_getCachedIdentifyResults (ex_world [ex_row]))) =
   Inr (candidate_of_cached ex_row # ex_gathered)"
  by (simp add: step2_candidates_def getCachedBuildings_eq ex_services ex_env_places_def ex_env_def
      ex_world_def ex_row_def ex_gathered_def ex_transform
      userCoordinates_of_def searchRadius_of_def ex_input_def del: List.map_filter_simps)

lemma ex_ranked_names:
  "map c_name (ranked ex_input (candidate_of_cached ex_row # ex_gathered)) =
     [Some ''A'', Some ''C'', Some ''B'', Some ''Town Hall''] \<and>
   map c_confidence (ranked ex_input (candidate_of_cached ex_row # ex_gathered)) =
     [85, 85, 81, 75]"
  by (simp add: ranked_def scored_def ex_gathered_def transform_places_def List.map_filter_simps
      ex_raw_def BUILDING_TYPES_def candidate_of_place_def candidate_of_cached_def
      ex_row_def ex_input_def userCoordinates_of_def step3_bearing_def ex_geo step4_confidence_def
      array_sort_def compareByConfidence_def
      calculateConfidenceScore_def calculateDistanceScore_def calculateBearingScore_def
      calculateSourceScore_def calculateMetadataScore_def math_round_def first_truthy_def or_null_def)

lemma ex_saved:
  "map c_name (take 5 (filter (\<lambda>c. c_source c \<noteq> cache \<and> c_confidence c > 30)
      (ranked ex_input (candidate_of_cached ex_row # ex_gathered)))) =
     [Some ''A'', Some ''C'', Some ''B'']"
  by (simp add: ranked_def scored_def ex_gathered_def transform_places_def List.map_filter_simps
      ex_raw_def BUILDING_TYPES_def candidate_of_place_def candidate_of_cached_def
      ex_row_def ex_input_def userCoordinates_of_def step3_bearing_def ex_geo step4_confidence_def
      array_sort_def compareByConfidence_def
      calculateConfidenceScore_def calculateDistanceScore_def calculateBearingScore_def
      calculateSourceScore_def calculateMetadataScore_def math_round_def first_truthy_def or_null_def)

section \<open>The metadata keys of the gathered candidates\<close>

lemma transform_places_keys:
  "list_all (\<lambda>place. no_computed_keys (pr_metadata place)) (transform_places places)"
  by (induction places)
     (simp_all add: transform_places_def List.map_filter_simps no_computed_keys_def
        metadata_value_def split: option.splits)

lemma candidate_of_place_keys:
  "no_computed_keys (pr_metadata place) \<Longrightarrow> no_computed_keys (c_metadata (candidate_of_place place))"
  by (cases "pr_metadata place")
     (simp_all add: no_computed_keys_def metadata_value_def candidate_of_place_def map_add_def)

lemma geocodeWithGoogle_keys:
  "geocodeWithGoogle env c = Some g \<Longrightarrow> no_computed_keys (gr_metadata g)"
  by (auto simp add: geocodeWithGoogle_def no_computed_keys_def metadata_value_def
      split: sum.splits option.splits)

lemma geocodeWithNominatim_keys:
  "geocodeWithNominatim env c = Some g \<Longrightarrow> no_computed_keys (gr_metadata g)"
  by (auto simp add: geocodeWithNominatim_def no_computed_keys_def metadata_value_def
      split: sum.splits option.splits)

lemma findNearbyPlaces_keys:
  assumes "findNearbyPlaces env c r w = (Inr places, w')"
    and "case redis_places w (places_getCacheKey (latitude c) (longitude c) r) of
           None \<Rightarrow> True
         | Some ps \<Rightarrow> list_all (\<lambda>place. no_computed_keys (pr_metadata place)) ps"
  shows "list_all (\<lambda>place. no_computed_keys (pr_metadata place)) places"
    and "redis_geocode w' = redis_geocode w"
  using assms transform_places_keys
  by (auto simp add: findNearbyPlaces_def findNearbyPlaces_try_def Let_def log_call_def
      split: option.splits sum.splits if_splits)

lemma reverseGeocode_keys:
  assumes "fst (reverseGeocode env c w) = Inr (Some g)"
    and "case redis_geocode w (geocode_getCacheKey (latitude c) (longitude c)) of
           None \<Rightarrow> True
         | Some result \<Rightarrow> no_computed_keys (gr_metadata result)"
  shows "no_computed_keys (gr_metadata g)"
  using assms geocodeWithGoogle_keys [of env c] geocodeWithNominatim_keys [of env c]
  by (auto simp add: reverseGeocode_def reverseGeocode_try_def Let_def log_call_def
      split: option.splits sum.splits if_splits)

lemma step2_candidates_keys:
  assumes "cached_by_adapters env input w"
    and "fst (step2_candidates findNearbyPlaces env (userCoordinates_of input)
               (searchRadius_of env input) w0) = Inr gathered"
    and "redis_places w0 = redis_places w" and "redis_geocode w0 = redis_geocode w"
    and "x \<in> set gathered" and "c_source x \<noteq> cache"
  shows "no_computed_keys (c_metadata x)"
proof -
  let ?c = "userCoordinates_of input" and ?r = "searchRadius_of env input"
  let ?w1 = "log_call Call_getCachedBuildings w0"
  define cached where "cached =
     (case findBuildingsNearLocation env ?c ?r w0 of
        Inr bs \<Rightarrow> map candidate_of_cached bs
      | Inl e \<Rightarrow> [])"
  have a: "fst (getCachedBuildings env ?c ?r w0) = Inr cached"
    by (simp add: getCachedBuildings_eq cached_def)
  have cs: "\<forall>y \<in> set cached. c_source y = cache"
    by (auto simp add: cached_def candidate_of_cached_def split: sum.splits)
  obtain nearby w2 where b: "findNearbyPlaces env ?c ?r ?w1 = (Inr nearby, w2)"
    using findNearbyPlaces_Inr [of env ?c ?r ?w1]
    by (cases "findNearbyPlaces env ?c ?r ?w1") auto
  have p: "case redis_places ?w1 (places_getCacheKey (latitude ?c) (longitude ?c) ?r) of
           None \<Rightarrow> True
         | Some ps \<Rightarrow> list_all (\<lambda>place. no_computed_keys (pr_metadata place)) ps"
    using assms(1,3) by (simp add: cached_by_adapters_def userCoordinates_of_def log_call_def)
  note n = findNearbyPlaces_keys [OF b p]
  have g: "case redis_geocode w2 (geocode_getCacheKey (latitude ?c) (longitude ?c)) of
           None \<Rightarrow> True
         | Some result \<Rightarrow> no_computed_keys (gr_metadata result)"
    using assms(1,4) n(2) by (simp add: cached_by_adapters_def userCoordinates_of_def log_call_def)
  have e: "\<And>g'. fst (reverseGeocode env ?c w2) = Inr (Some g') \<Longrightarrow>
             no_computed_keys (c_metadata (candidate_of_geocode g'))"
    using reverseGeocode_keys [OF _ g] by (simp add: candidate_of_geocode_def)
  have "x \<in> set cached \<or> x \<in> candidate_of_place ` set nearby \<or>
        (\<exists>g'. fst (reverseGeocode env ?c w2) = Inr (Some g') \<and> x = candidate_of_geocode g')"
    using assms(2,5) unfolding step2_candidates_eq [OF a b]
    by (auto split: if_splits sum.splits option.splits)
  then show ?thesis
    using cs assms(6) n(1) e candidate_of_place_keys
    by (auto simp add: list_all_iff)
qed

lemma set_array_sort: "set (array_sort f xs) = set xs"
  unfolding array_sort_def by (induction xs) (simp_all add: set_array_sort_insert)

lemma ranked_keys:
  assumes "x \<in> set (ranked input gathered)"
  shows "\<exists>y \<in> set gathered. c_metadata x = c_metadata y \<and> c_source x = c_source y"
  using assms
  by (auto simp add: ranked_def scored_def set_array_sort step3_bearing_def step4_confidence_def
      Let_def)

lemma topCandidates_keys:
  assumes "cached_by_adapters env input w"
    and "fst (step2_candidates findNearbyPlaces env (userCoordinates_of input)
               (searchRadius_of env input) (log_call Call_getCachedIdentifyResults w)) =
         Inr gathered"
    and "c \<in> set (topCandidates (ranked input gathered))"
  shows "no_computed_keys (c_metadata c)"
proof -
  have "c \<in> set (ranked input gathered)" "c_source c \<noteq> cache"
    using assms(3) by (auto simp add: topCandidates_def dest: in_set_takeD)
  then obtain y where y: "y \<in> set gathered" "c_metadata c = c_metadata y" "c_source y \<noteq> cache"
    using ranked_keys [of c input gathered] by auto
  show ?thesis
    using step2_candidates_keys [OF assms(1,2) _ _ y(1) y(3)] y(2)
    by (simp add: log_call_def)
qed

section \<open>What a run writes to Redis\<close>

lemma findNearbyPlaces_try_world:
  "snd (findNearbyPlaces_try env c r w) = w \<or>
   (\<exists>ps. snd (findNearbyPlaces_try env c r w) =
      w\<lparr>redis_places := (redis_places w)
          (places_getCacheKey (latitude c) (longitude c) r \<mapsto> transform_places ps)\<rparr>)"
  by (simp add: findNearbyPlaces_try_def Let_def split: option.splits sum.splits) blast

lemma findNearbyPlaces_world:
  "snd (findNearbyPlaces env c r w) = log_call Call_findNearbyPlaces w \<or>
   (\<exists>ps. snd (findNearbyPlaces env c r w) =
      (log_call Call_findNearbyPlaces w)\<lparr>redis_places := (redis_places w)
          (places_getCacheKey (latitude c) (longitude c) r \<mapsto> transform_places ps)\<rparr>)"
proof -
  have "snd (findNearbyPlaces env c r w) =
        snd (findNearbyPlaces_try env c r (log_call Call_findNearbyPlaces w))"
    by (simp add: findNearbyPlaces_def Let_def split: prod.splits sum.splits)
  then show ?thesis
    using findNearbyPlaces_try_world [of env c r "log_call Call_findNearbyPlaces w"]
    by (simp add: log_call_def)
qed

lemma findNearbyPlaces_writes:
  "redis_geocode (snd (findNearbyPlaces env c r w)) = redis_geocode w \<and>
   (redis_places (snd (findNearbyPlaces env c r w)) k = Some ps \<longrightarrow>
      redis_places w k = Some ps \<or> list_all (\<lambda>place. no_computed_keys (pr_metadata place)) ps)"
  using findNearbyPlaces_world [of env c r w] transform_places_keys
  by (auto simp add: log_call_def split: if_splits)

lemma reverseGeocode_try_world:
  "snd (reverseGeocode_try env c w) = w \<or>
   (\<exists>g. no_computed_keys (gr_metadata g) \<and>
      snd (reverseGeocode_try env c w) =
        w\<lparr>redis_geocode := (redis_geocode w)
            (geocode_getCacheKey (latitude c) (longitude c) \<mapsto> g)\<rparr>)"
proof (cases "geocodeWithGoogle env c")
  case None
  then show ?thesis
    using geocodeWithNominatim_keys [of env c]
    by (simp add: reverseGeocode_try_def Let_def split: option.splits sum.splits) blast
next
  case (Some g)
  then show ?thesis
    using geocodeWithGoogle_keys [of env c]
    by (simp add: reverseGeocode_try_def Let_def split: option.splits sum.splits) blast
qed

lemma reverseGeocode_world:
  "snd (reverseGeocode env c w) = log_call Call_reverseGeocode w \<or>
   (\<exists>g. no_computed_keys (gr_metadata g) \<and>
      snd (reverseGeocode env c w) =
        (log_call Call_reverseGeocode w)\<lparr>redis_geocode := (redis_geocode w)
            (geocode_getCacheKey (latitude c) (longitude c) \<mapsto> g)\<rparr>)"
proof -
  have "snd (reverseGeocode env c w) =
        snd (reverseGeocode_try env c (log_call Call_reverseGeocode w))"
    by (simp add: reverseGeocode_def Let_def split: prod.splits sum.splits)
  then show ?thesis
    using reverseGeocode_try_world [of env c "log_call Call_reverseGeocode w"]
    by (simp add: log_call_def)
qed

lemma reverseGeocode_writes:
  "redis_places (snd (reverseGeocode env c w)) = redis_places w \<and>
   (redis_geocode (snd (reverseGeocode env c w)) k = Some g \<longrightarrow>
      redis_geocode w k = Some g \<or> no_computed_keys (gr_metadata g))"
  using reverseGeocode_world [of env c w]
  by (auto simp add: log_call_def split: if_splits)

lemma saveBuildingToDatabase_redis:
  "redis_places (snd (saveBuildingToDatabase env b w)) = redis_places w \<and>
   redis_geocode (snd (saveBuildingToDatabase env b w)) = redis_geocode w"
  by (simp add: saveBuildingToDatabase_def Let_def split: option.splits)

lemma saveBuildingToCache_redis:
  "redis_places (snd (saveBuildingToCache env c ttl w)) = redis_places w \<and>
   redis_geocode (snd (saveBuildingToCache env c ttl w)) = redis_geocode w"
  by (simp add: saveBuildingToCache_def saveBuildingToDatabase_redis Let_def log_call_def)

lemma allSettled_saves_redis:
  "redis_places (allSettled_saves env cs w) = redis_places w \<and>
   redis_geocode (allSettled_saves env cs w) = redis_geocode w"
  unfolding allSettled_saves_def
  by (induction cs arbitrary: w) (simp_all add: saveBuildingToCache_redis)

lemma step2_candidates_writes:
  "(redis_places (snd (step2_candidates findNearbyPlaces env c r w)) k = Some ps \<longrightarrow>
      redis_places w k = Some ps \<or> list_all (\<lambda>place. no_computed_keys (pr_metadata place)) ps) \<and>
   (redis_geocode (snd (step2_candidates findNearbyPlaces env c r w)) k' = Some g \<longrightarrow>
      redis_geocode w k' = Some g \<or> no_computed_keys (gr_metadata g))"
proof -
  let ?w1 = "log_call Call_getCachedBuildings w"
  obtain cached where a: "fst (getCachedBuildings env c r w) = Inr cached"
    by (simp add: getCachedBuildings_eq)
  obtain nearby w2 where b: "findNearbyPlaces env c r ?w1 = (Inr nearby, w2)"
    using findNearbyPlaces_Inr [of env c r ?w1]
    by (cases "findNearbyPlaces env c r ?w1") auto
  have p: "redis_geocode w2 = redis_geocode w"
    "redis_places w2 k = Some ps \<longrightarrow>
      redis_places w k = Some ps \<or> list_all (\<lambda>place. no_computed_keys (pr_metadata place)) ps"
    using findNearbyPlaces_writes [of env c r ?w1 k ps] b by (simp_all add: log_call_def)
  have q: "redis_places (snd (reverseGeocode env c w2)) = redis_places w2"
    "redis_geocode (snd (reverseGeocode env c w2)) k' = Some g \<longrightarrow>
      redis_geocode w2 k' = Some g \<or> no_computed_keys (gr_metadata g)"
    using reverseGeocode_writes [of env c w2 k' g] by simp_all
  show ?thesis
  proof (cases "length cached + length nearby < 3")
    case True
    then show ?thesis
      unfolding step2_candidates_eq [OF a b] using p q by simp
  next
    case False
    then show ?thesis
      unfolding step2_candidates_eq [OF a b] using p by simp
  qed
qed

lemma step2_candidates_Inr:
  "\<exists>gathered. fst (step2_candidates findNearbyPlaces env c r w) = Inr gathered"
proof (cases "fst (step2_candidates findNearbyPlaces env c r w)")
  case (Inl e)
  then have "fst (findNearbyPlaces env c r (log_call Call_getCachedBuildings w)) = Inl e"
    by (simp add: step2_candidates_Inl)
  then show ?thesis
    using findNearbyPlaces_Inr [of env c r "log_call Call_getCachedBuildings w"] by simp
next
  case (Inr gathered)
  then show ?thesis by simp
qed

lemma identifyBuilding_writes:
  "(redis_places (snd (identifyBuilding env input w)) k = Some ps \<longrightarrow>
      redis_places w k = Some ps \<or> list_all (\<lambda>place. no_computed_keys (pr_metadata place)) ps) \<and>
   (redis_geocode (snd (identifyBuilding env input w)) k' = Some g \<longrightarrow>
      redis_geocode w k' = Some g \<or> no_computed_keys (gr_metadata g))"
proof (cases "fst (getCachedIdentifyResults env (userCoordinates_of input) (in_heading input)
            (searchRadius_of env input) w)")
  case (Inl e)
  then show ?thesis by (simp add: getCachedIdentifyResults_eq)
next
  case (Inr found)
  let ?c = "userCoordinates_of input" and ?r = "searchRadius_of env input"
  let ?w1 = "log_call Call_getCachedIdentifyResults w"
  show ?thesis
  proof (cases found)
    case (Some stored)
    then have "snd (identifyBuilding env input w) = ?w1"
      using Inr
      by (simp add: identifyBuilding_def identifyBuilding_with_def getCachedIdentifyResults_eq
          Let_def split: if_splits)
    then show ?thesis by (simp add: log_call_def)
  next
    case None
    obtain gathered where g: "fst (step2_candidates findNearbyPlaces env ?c ?r ?w1) = Inr gathered"
      using step2_candidates_Inr [of env ?c ?r ?w1] by auto
    then obtain w2 where s: "step2_candidates findNearbyPlaces env ?c ?r ?w1 = (Inr gathered, w2)"
      by (cases "step2_candidates findNearbyPlaces env ?c ?r ?w1") auto
    have m: "fst (getCachedIdentifyResults env ?c (in_heading input) ?r w) = Inr None"
      using Inr None by simp
    have "redis_places (snd (identifyBuilding env input w)) = redis_places w2"
      "redis_geocode (snd (identifyBuilding env input w)) = redis_geocode w2"
      unfolding identifyBuilding_def identifyBuilding_with_miss_world [OF m s]
      by (simp_all add: cacheIdentifyResults_eq allSettled_saves_redis log_call_def)
    then show ?thesis
      using step2_candidates_writes [of env ?c ?r ?w1 k ps k' g] s
      by (simp add: log_call_def)
  qed
qed

text \<open>
  So when no Redis entry of the adapters holds a computed key, the entries any later query
  reads hold none either.
\<close>

lemma identifyBuilding_keeps_adapters:
  assumes "\<And>k ps. redis_places w k = Some ps \<Longrightarrow>
             list_all (\<lambda>place. no_computed_keys (pr_metadata place)) ps"
    and "\<And>k g. redis_geocode w k = Some g \<Longrightarrow> no_computed_keys (gr_metadata g)"
  shows "cached_by_adapters env' input' (snd (identifyBuilding env input w))"
proof -
  let ?w = "snd (identifyBuilding env input w)"
  have p: "list_all (\<lambda>place. no_computed_keys (pr_metadata place)) ps"
    if "redis_places ?w k = Some ps" for k ps
    using identifyBuilding_writes [of env input w k ps] that assms(1) [of k ps] by blast
  have g: "no_computed_keys (gr_metadata g)" if "redis_geocode ?w k = Some g" for k g
    using identifyBuilding_writes [of env input w _ _ k g] that assms(2) [of k g] by blast
  show ?thesis
    unfolding cached_by_adapters_def using p g by (simp split: option.splits)
qed

section \<open>The table after the saves\<close>

lemma findNearbyPlaces_table:
  "cached_buildings (snd (findNearbyPlaces env c r w)) = cached_buildings w"
  using findNearbyPlaces_world [of env c r w] by (auto simp add: log_call_def)

lemma reverseGeocode_table:
  "cached_buildings (snd (reverseGeocode env c w)) = cached_buildings w"
  using reverseGeocode_world [of env c w] by (auto simp add: log_call_def)

lemma step2_candidates_table:
  "cached_buildings (snd (step2_candidates findNearbyPlaces env c r w)) = cached_buildings w"
proof -
  let ?w1 = "log_call Call_getCachedBuildings w"
  obtain cached where a: "fst (getCachedBuildings env c r w) = Inr cached"
    by (simp add: getCachedBuildings_eq)
  obtain nearby w2 where b: "findNearbyPlaces env c r ?w1 = (Inr nearby, w2)"
    using findNearbyPlaces_Inr [of env c r ?w1]
    by (cases "findNearbyPlaces env c r ?w1") auto
  have "cached_buildings w2 = cached_buildings w"
    using findNearbyPlaces_table [of env c r ?w1] b by (simp add: log_call_def)
  then show ?thesis
    unfolding step2_candidates_eq [OF a b] by (simp add: reverseGeocode_table)
qed

lemma saveBuildingToDatabase_table:
  "cached_buildings w = cached_buildings w' \<Longrightarrow>
   cached_buildings (snd (saveBuildingToDatabase env b w)) =
   cached_buildings (snd (saveBuildingToDatabase env b w'))"
  by (simp add: saveBuildingToDatabase_def getBuildingByExternalId_def Let_def
      split: option.splits)

lemma saveBuildingToCache_table:
  "cached_buildings w = cached_buildings w' \<Longrightarrow>
   cached_buildings (snd (saveBuildingToCache env c ttl w)) =
   cached_buildings (snd (saveBuildingToCache env c ttl w'))"
  unfolding saveBuildingToCache_def Let_def
  by (rule saveBuildingToDatabase_table) (simp add: log_call_def)

lemma saves_table:
  "cached_buildings w = cached_buildings w' \<Longrightarrow>
   cached_buildings (foldl (\<lambda>v c. snd (saveBuildingToCache env c None v)) w cs) =
   cached_buildings (foldl (\<lambda>v c. snd (saveBuildingToCache env c None v)) w' cs)"
proof (induction cs arbitrary: w w')
  case Nil
  then show ?case by simp
next
  case (Cons c cs)
  show ?case
    using Cons.IH [OF saveBuildingToCache_table [OF Cons.prems, of env c None]] by simp
qed

lemma identifyBuilding_table:
  assumes "fst (getCachedIdentifyResults env (userCoordinates_of input) (in_heading input)
            (searchRadius_of env input) w) = Inr None"
    and "fst (step2_candidates findNearbyPlaces env (userCoordinates_of input)
            (searchRadius_of env input) (log_call Call_getCachedIdentifyResults w)) = Inr gathered"
  shows "cached_buildings (snd (identifyBuilding env input w)) =
         cached_buildings
           (foldl (\<lambda>v c. snd (saveBuildingToCache env c None v)) w
              (topCandidates (ranked input gathered)))"
proof -
  let ?c = "userCoordinates_of input" and ?r = "searchRadius_of env input"
  let ?w1 = "log_call Call_getCachedIdentifyResults w"
  obtain w2 where s: "step2_candidates findNearbyPlaces env ?c ?r ?w1 = (Inr gathered, w2)"
    using assms(2) by (cases "step2_candidates findNearbyPlaces env ?c ?r ?w1") auto
  have "cached_buildings w2 = cached_buildings ?w1"
    using step2_candidates_table [of env ?c ?r ?w1] s by simp
  then have t: "cached_buildings w2 = cached_buildings w"
    by (simp add: log_call_def)
  show ?thesis
    unfolding identifyBuilding_def identifyBuilding_with_miss_world [OF assms(1) s]
    using saves_table [OF t, of env "topCandidates (ranked input gathered)"]
    by (simp add: cacheIdentifyResults_eq allSettled_saves_def log_call_def)
qed

lemma saveBuildingToDatabase_rows:
  assumes "row \<in> set (cached_buildings (snd (saveBuildingToDatabase env b w)))"
  shows "row \<in> set (cached_buildings w) \<or> cb_metadata row = bd_metadata b"
  using assms
  by (auto simp add: saveBuildingToDatabase_def Let_def split: option.splits if_splits)

lemma saveBuildingToCache_rows:
  assumes "row \<in> set (cached_buildings (snd (saveBuildingToCache env c ttl w)))"
  shows "row \<in> set (cached_buildings w) \<or> cb_metadata row = Some (merged_metadata c)"
  using saveBuildingToDatabase_rows [of row env _ "log_call (Call_saveBuildingToCache c) w"] assms
  by (fastforce simp add: saveBuildingToCache_def Let_def log_call_def)

lemma saves_rows:
  assumes "row \<in> set (cached_buildings
             (foldl (\<lambda>v c. snd (saveBuildingToCache env c None v)) w cs))"
  shows "row \<in> set (cached_buildings w) \<or>
         (\<exists>c \<in> set cs. cb_metadata row = Some (merged_metadata c))"
  using assms
proof (induction cs arbitrary: w)
  case Nil
  then show ?case by simp
next
  case (Cons c cs)
  from Cons.IH [of "snd (saveBuildingToCache env c None w)"] Cons.prems
  have "row \<in> set (cached_buildings (snd (saveBuildingToCache env c None w))) \<or>
        (\<exists>c \<in> set cs. cb_metadata row = Some (merged_metadata c))"
    by simp
  then show ?case
    using saveBuildingToCache_rows [of row env c None w] by auto
qed

section \<open>The example run, scored and saved\<close>

lemmas ex_scoring =
  ranked_def scored_def ex_gathered_def transform_places_def List.map_filter_simps
  ex_raw_def BUILDING_TYPES_def candidate_of_place_def candidate_of_cached_def
  ex_row_def ex_input_def userCoordinates_of_def step3_bearing_def ex_geo step4_confidence_def
  array_sort_def compareByConfidence_def topCandidates_def
  calculateConfidenceScore_def calculateDistanceScore_def calculateBearingScore_def
  calculateSourceScore_def calculateMetadataScore_def math_round_def first_truthy_def or_null_def

lemma ex_top_value:
  "c_externalId ex_top = Some ''place-A'' \<and> c_source ex_top = google_places \<and>
   c_name ex_top = Some ''A'' \<and> c_distance ex_top = 0 \<and> c_bearing ex_top = 0 \<and>
   c_bearingDiff ex_top = None \<and> c_confidence ex_top = 85 \<and>
   metadata_value (c_metadata ex_top) ''rating'' = Some (JNum 4)"
  by (simp add: ex_top_def ex_scoring metadata_value_def)

lemma ex_top_in: "ex_top \<in> set (topCandidates (ranked ex_input (candidate_of_cached ex_row # ex_gathered)))"
proof -
  have "topCandidates (ranked ex_input (candidate_of_cached ex_row # ex_gathered)) \<noteq> []"
    using ex_saved by (auto simp add: topCandidates_def)
  then show ?thesis unfolding ex_top_def by (rule hd_in_set)
qed

lemma ex_cached_by_adapters: "cached_by_adapters ex_env_places ex_input (ex_world rows)"
  by (simp add: cached_by_adapters_def ex_world_def)

lemma ex_top_saved:
  "saveBuildingToCache ex_env ex_top None (ex_world []) =
     (Inr ''id'', snd (saveBuildingToCache ex_env ex_top None (ex_world []))) \<and>
   stored_values ''rating'' (snd (saveBuildingToCache ex_env ex_top None (ex_world []))) =
     [Some (JNum 4)] \<and>
   stored_values ''confidence'' (snd (saveBuildingToCache ex_env ex_top None (ex_world []))) =
     [Some (JNum 85)]"
  using ex_top_value
  by (simp add: saveBuildingToCache_def saveBuildingToDatabase_def getBuildingByExternalId_def
      Let_def ex_env_def ex_world_def log_call_def or_null_def stored_values_def
      metadata_value_def merged_metadata_def split: option.splits)

lemmas ex_saving =
  saveBuildingToCache_def saveBuildingToDatabase_def getBuildingByExternalId_def
  merged_metadata_def stored_values_def metadata_value_def log_call_def Let_def

lemma ex_table:
  "map cb_id (cached_buildings
     (foldl (\<lambda>v c. snd (saveBuildingToCache ex_env_places c None v)) (ex_world [ex_row])
        (topCandidates (ranked ex_input (candidate_of_cached ex_row # ex_gathered))))) =
     [''b1'', ''idx'', ''idxx'', ''idxxx''] \<and>
   map cb_externalId (cached_buildings
     (foldl (\<lambda>v c. snd (saveBuildingToCache ex_env_places c None v)) (ex_world [ex_row])
        (topCandidates (ranked ex_input (candidate_of_cached ex_row # ex_gathered))))) =
     [Some ''p1'', Some ''place-A'', Some ''place-C'', Some ''place-B''] \<and>
   stored_values ''confidence''
     (foldl (\<lambda>v c. snd (saveBuildingToCache ex_env_places c None v)) (ex_world [ex_row])
        (topCandidates (ranked ex_input (candidate_of_cached ex_row # ex_gathered)))) =
     [None, Some (JNum 85), Some (JNum 85), Some (JNum 81)]"
  by (simp add: ex_scoring ex_saving ex_env_places_def ex_env_def ex_world_def)

section \<open>The identify operation\<close>

text \<open>
  Claim C1, as amended. An error reaches the caller of the identify operation only when
  the call of the places adapter itself throws: with any adapter in the place of
  \<open>findNearbyPlaces\<close>, the result is the error \<open>e\<close> exactly when the result cache misses
  and the adapter's call throws \<open>e\<close>, whatever the failures of the Redis reads and writes,
  of the database query, of the geocoding providers and of the saves; with
  \<open>findNearbyPlaces\<close>, which catches its own errors, \<open>identifyBuilding\<close> never throws. On a
  miss the operation returns the ranked list of the candidates that were gathered. In
  particular, when the result cache misses, the building cache yields no candidate, the
  places adapter returns the empty list and the geocoding adapter returns \<^verbatim>\<open>null\<close>,
  the candidate list is empty.
\<close>

theorem identifyBuilding_error_handling:
  "(fst (identifyBuilding_with places env input w) = Inl e \<longleftrightarrow>
      fst (getCachedIdentifyResults env (userCoordinates_of input) (in_heading input)
             (searchRadius_of env input) w) = Inr None \<and>
      fst (places env (userCoordinates_of input) (searchRadius_of env input)
             (log_call Call_getCachedBuildings (log_call Call_getCachedIdentifyResults w)))
        = Inl e) \<and>
   fst (identifyBuilding env input w) \<noteq> Inl e \<and>
   (fst (getCachedIdentifyResults env (userCoordinates_of input) (in_heading input)
           (searchRadius_of env input) w) = Inr None \<and>
    fst (step2_candidates places env (userCoordinates_of input) (searchRadius_of env input)
           (log_call Call_getCachedIdentifyResults w)) = Inr gathered \<longrightarrow>
    fst (identifyBuilding_with places env input w) =
      Inr \<lparr>res_candidates = ranked input gathered,
           res_searchRadius = searchRadius_of env input,
           res_searchCenter = userCoordinates_of input,
           res_heading = in_heading input,
           res_timestamp = date_now env\<rparr>) \<and>
   (fst (getCachedIdentifyResults env (userCoordinates_of input) (in_heading input)
           (searchRadius_of env input) w) = Inr None \<and>
    fst (getCachedBuildings env (userCoordinates_of input) (searchRadius_of env input)
           (log_call Call_getCachedIdentifyResults w)) = Inr [] \<and>
    fst (places env (userCoordinates_of input) (searchRadius_of env input)
           (log_call Call_getCachedBuildings (log_call Call_getCachedIdentifyResults w)))
      = Inr [] \<and>
    fst (reverseGeocode env (userCoordinates_of input)
           (snd (places env (userCoordinates_of input) (searchRadius_of env input)
                  (log_call Call_getCachedBuildings
                     (log_call Call_getCachedIdentifyResults w))))) = Inr None \<longrightarrow>
    fst (identifyBuilding_with places env input w) =
      Inr \<lparr>res_candidates = [],
           res_searchRadius = searchRadius_of env input,
           res_searchCenter = userCoordinates_of input,
           res_heading = in_heading input,
           res_timestamp = date_now env\<rparr>)"
proof (intro conjI impI)
  show "fst (identifyBuilding_with places env input w) = Inl e \<longleftrightarrow>
      fst (getCachedIdentifyResults env (userCoordinates_of input) (in_heading input)
             (searchRadius_of env input) w) = Inr None \<and>
      fst (places env (userCoordinates_of input) (searchRadius_of env input)
             (log_call Call_getCachedBuildings (log_call Call_getCachedIdentifyResults w)))
        = Inl e"
    by (rule identifyBuilding_with_Inl)
  show "fst (identifyBuilding env input w) \<noteq> Inl e"
    by (rule identifyBuilding_never_throws)
next
  assume "fst (getCachedIdentifyResults env (userCoordinates_of input) (in_heading input)
           (searchRadius_of env input) w) = Inr None \<and>
    fst (step2_candidates places env (userCoordinates_of input) (searchRadius_of env input)
           (log_call Call_getCachedIdentifyResults w)) = Inr gathered"
  then show "fst (identifyBuilding_with places env input w) =
      Inr \<lparr>res_candidates = ranked input gathered,
           res_searchRadius = searchRadius_of env input,
           res_searchCenter = userCoordinates_of input,
           res_heading = in_heading input,
           res_timestamp = date_now env\<rparr>"
    by (simp add: identifyBuilding_with_miss)
next
  assume a: "fst (getCachedIdentifyResults env (userCoordinates_of input) (in_heading input)
           (searchRadius_of env input) w) = Inr None \<and>
    fst (getCachedBuildings env (userCoordinates_of input) (searchRadius_of env input)
           (log_call Call_getCachedIdentifyResults w)) = Inr [] \<and>
    fst (places env (userCoordinates_of input) (searchRadius_of env input)
           (log_call Call_getCachedBuildings (log_call Call_getCachedIdentifyResults w)))
      = Inr [] \<and>
    fst (reverseGeocode env (userCoordinates_of input)
           (snd (places env (userCoordinates_of input) (searchRadius_of env input)
                  (log_call Call_getCachedBuildings
                     (log_call Call_getCachedIdentifyResults w))))) = Inr None"
  then have "fst (step2_candidates places env (userCoordinates_of input)
           (searchRadius_of env input) (log_call Call_getCachedIdentifyResults w)) = Inr []"
    by (intro step2_candidates_empty) simp_all
  with a show "fst (identifyBuilding_with places env input w) =
      Inr \<lparr>res_candidates = [],
           res_searchRadius = searchRadius_of env input,
           res_searchCenter = userCoordinates_of input,
           res_heading = in_heading input,
           res_timestamp = date_now env\<rparr>"
    by (simp add: identifyBuilding_with_miss ranked_def scored_def array_sort_Nil)
qed

text \<open>
  A run on an empty table with both geocoding providers timing out, and the same run with an
  adapter that throws in the place of \<open>findNearbyPlaces\<close>.
\<close>

theorem identifyBuilding_error_handling_witness:
  "fst (getCachedIdentifyResults ex_env (userCoordinates_of ex_input) (in_heading ex_input)
          (searchRadius_of ex_env ex_input) (ex_world [])) = Inr None \<and>
   fst (getCachedBuildings ex_env (userCoordinates_of ex_input) (searchRadius_of ex_env ex_input)
          (log_call Call_getCachedIdentifyResults (ex_world []))) = Inr [] \<and>
   fst (findNearbyPlaces ex_env (userCoordinates_of ex_input) (searchRadius_of ex_env ex_input)
          (log_call Call_getCachedBuildings
             (log_call Call_getCachedIdentifyResults (ex_world [])))) = Inr [] \<and>
   fst (reverseGeocode ex_env (userCoordinates_of ex_input)
          (snd (findNearbyPlaces ex_env (userCoordinates_of ex_input)
                  (searchRadius_of ex_env ex_input)
                  (log_call Call_getCachedBuildings
                     (log_call Call_getCachedIdentifyResults (ex_world [])))))) = Inr None \<and>
   fst (identifyBuilding_with findNearbyPlaces ex_env ex_input (ex_world [])) =
     Inr \<lparr>res_candidates = [], res_searchRadius = 100,
          res_searchCenter = \<lparr>latitude = 0, longitude = 0\<rparr>,
          res_heading = None, res_timestamp = 0\<rparr> \<and>
   fst (identifyBuilding_with ex_places_throws ex_env ex_input (ex_world [])) =
     Inl (Error ''quota exceeded'')"
proof -
  have 1: "fst (getCachedIdentifyResults ex_env (userCoordinates_of ex_input) (in_heading ex_input)
          (searchRadius_of ex_env ex_input) (ex_world [])) = Inr None"
    by (simp add: getCachedIdentifyResults_eq ex_defs)
  have 2: "fst (getCachedBuildings ex_env (userCoordinates_of ex_input)
          (searchRadius_of ex_env ex_input)
          (log_call Call_getCachedIdentifyResults (ex_world []))) = Inr []"
    by (simp add: getCachedBuildings_eq ex_services ex_defs)
  have 3: "fst (findNearbyPlaces ex_env (userCoordinates_of ex_input)
          (searchRadius_of ex_env ex_input)
          (log_call Call_getCachedBuildings
             (log_call Call_getCachedIdentifyResults (ex_world [])))) = Inr []"
    by (simp add: ex_services ex_defs)
  have 4: "fst (reverseGeocode ex_env (userCoordinates_of ex_input)
          (snd (findNearbyPlaces ex_env (userCoordinates_of ex_input)
                  (searchRadius_of ex_env ex_input)
                  (log_call Call_getCachedBuildings
                     (log_call Call_getCachedIdentifyResults (ex_world [])))))) = Inr None"
    by (simp add: ex_services ex_defs)
  have 5: "fst (ex_places_throws ex_env (userCoordinates_of ex_input)
          (searchRadius_of ex_env ex_input)
          (log_call Call_getCachedBuildings
             (log_call Call_getCachedIdentifyResults (ex_world [])))) = Inl (Error ''quota exceeded'')"
    by (simp add: ex_places_throws_def)
  show ?thesis
    using 1 2 3 4 5
      identifyBuilding_error_handling [of findNearbyPlaces ex_env ex_input "ex_world []" "Error ''quota exceeded''" "[]"]
      identifyBuilding_error_handling [of ex_places_throws ex_env ex_input "ex_world []" "Error ''quota exceeded''" "[]"]
    by (simp add: ex_defs)
qed

text \<open>
  The claim as it was stated does not ask the building cache to be empty. With one row in
  the table, the places adapter returning the empty list and both geocoding providers
  failing, the candidate list holds the cached building.
\<close>

theorem identifyBuilding_empty_counterexample:
  "google_geocode_try ex_env = Inl (Error ''timeout'') \<and>
   nominatim_geocode_try ex_env = Inl (Error ''timeout'') \<and>
   fst (findNearbyPlaces ex_env (userCoordinates_of ex_input) (searchRadius_of ex_env ex_input)
          (log_call Call_getCachedBuildings
             (log_call Call_getCachedIdentifyResults (ex_world [ex_row])))) = Inr [] \<and>
   fst (reverseGeocode ex_env (userCoordinates_of ex_input)
          (snd (findNearbyPlaces ex_env (userCoordinates_of ex_input)
                  (searchRadius_of ex_env ex_input)
                  (log_call Call_getCachedBuildings
                     (log_call Call_getCachedIdentifyResults (ex_world [ex_row])))))) = Inr None \<and>
   fst (identifyBuilding ex_env ex_input (ex_world [ex_row])) =
     Inr \<lparr>res_candidates =
            [\<lparr>c_id = Some ''b1'', c_externalId = Some ''p1'', c_name = Some ''Town Hall'',
              c_address = ''1 Main St'', c_coordinates = \<lparr>latitude = 0, longitude = 0\<rparr>,
              c_distance = 0, c_bearing = 0, c_bearingDiff = None, c_confidence = 75,
              c_source = cache, c_metadata = None\<rparr>],
          res_searchRadius = 100, res_searchCenter = \<lparr>latitude = 0, longitude = 0\<rparr>,
          res_heading = None, res_timestamp = 0\<rparr>"
proof -
  have m: "fst (getCachedIdentifyResults ex_env (userCoordinates_of ex_input) (in_heading ex_input)
            (searchRadius_of ex_env ex_input) (ex_world [ex_row])) = Inr None"
    by (simp add: getCachedIdentifyResults_eq ex_world_def)
  have s: "fst (step2_candidates findNearbyPlaces ex_env (userCoordinates_of ex_input)
            (searchRadius_of ex_env ex_input)
            (log_call Call_getCachedIdentifyResults (ex_world [ex_row]))) =
           Inr [candidate_of_cached ex_row]"
    by (simp add: step2_candidates_def getCachedBuildings_eq ex_services ex_defs ex_row_def)
  have r: "fst (identifyBuilding ex_env ex_input (ex_world [ex_row])) =
     Inr \<lparr>res_candidates =
            [\<lparr>c_id = Some ''b1'', c_externalId = Some ''p1'', c_name = Some ''Town Hall'',
              c_address = ''1 Main St'', c_coordinates = \<lparr>latitude = 0, longitude = 0\<rparr>,
              c_distance = 0, c_bearing = 0, c_bearingDiff = None, c_confidence = 75,
              c_source = cache, c_metadata = None\<rparr>],
          res_searchRadius = 100, res_searchCenter = \<lparr>latitude = 0, longitude = 0\<rparr>,
          res_heading = None, res_timestamp = 0\<rparr>"
    unfolding identifyBuilding_def identifyBuilding_with_miss [OF m s] ex_ranked
    by (simp add: ex_defs)
  show ?thesis
    unfolding r by (simp add: ex_services ex_defs)
qed

text \<open>
  Claim C2. If the read of the result cache gives a candidate list for the key of the
  query, the identify operation returns exactly that list, and the only call it has made is
  that read: the building cache, the places adapter and the geocoding adapter are not
  called, nothing is saved, and the three Redis stores and the table are as they were.
\<close>

theorem identifyBuilding_cache_hit:
  assumes "fst (getCachedIdentifyResults env (userCoordinates_of input) (in_heading input)
            (searchRadius_of env input) w) = Inr (Some stored)"
  shows "\<exists>w'. identifyBuilding env input w =
           (Inr \<lparr>res_candidates = stored,
                 res_searchRadius = searchRadius_of env input,
                 res_searchCenter = userCoordinates_of input,
                 res_heading = in_heading input,
                 res_timestamp = date_now env\<rparr>, w') \<and>
         calls w' = calls w @ [Call_getCachedIdentifyResults] \<and>
         redis_identify w' = redis_identify w \<and>
         redis_places w' = redis_places w \<and>
         redis_geocode w' = redis_geocode w \<and>
         cached_buildings w' = cached_buildings w"
  using assms
  by (auto simp add: identifyBuilding_def identifyBuilding_with_def getCachedIdentifyResults_eq
      Let_def log_call_def split: option.splits if_splits)

theorem identifyBuilding_cache_hit_witness:
  "fst (getCachedIdentifyResults ex_env (userCoordinates_of ex_input) (in_heading ex_input)
          (searchRadius_of ex_env ex_input) ex_world_hit) = Inr (Some [ex_candidate]) \<and>
   (\<exists>w'. identifyBuilding ex_env ex_input ex_world_hit =
           (Inr \<lparr>res_candidates = [ex_candidate],
                 res_searchRadius = searchRadius_of ex_env ex_input,
                 res_searchCenter = userCoordinates_of ex_input,
                 res_heading = in_heading ex_input,
                 res_timestamp = date_now ex_env\<rparr>, w') \<and>
         calls w' = calls ex_world_hit @ [Call_getCachedIdentifyResults] \<and>
         redis_identify w' = redis_identify ex_world_hit \<and>
         redis_places w' = redis_places ex_world_hit \<and>
         redis_geocode w' = redis_geocode ex_world_hit \<and>
         cached_buildings w' = cached_buildings ex_world_hit)"
proof -
  have h: "fst (getCachedIdentifyResults ex_env (userCoordinates_of ex_input) (in_heading ex_input)
          (searchRadius_of ex_env ex_input) ex_world_hit) = Inr (Some [ex_candidate])"
    by (simp add: getCachedIdentifyResults_eq ex_world_hit_def ex_defs)
  show ?thesis
    using h identifyBuilding_cache_hit [OF h] by simp
qed

text \<open>
  Claim C4. On a miss of the result cache the returned list is in non-increasing order of
  confidence, and the candidates of any one confidence value appear in the order in which
  they were gathered.
\<close>

theorem identifyBuilding_sorted_stable:
  assumes "fst (getCachedIdentifyResults env (userCoordinates_of input) (in_heading input)
            (searchRadius_of env input) w) = Inr None"
    and "fst (step2_candidates findNearbyPlaces env (userCoordinates_of input)
            (searchRadius_of env input) (log_call Call_getCachedIdentifyResults w)) = Inr gathered"
  shows "\<exists>r. fst (identifyBuilding env input w) = Inr r \<and>
           sorted_wrt (\<lambda>a b. c_confidence b \<le> c_confidence a) (res_candidates r) \<and>
           length (res_candidates r) = length gathered \<and>
           (\<forall>v. filter (\<lambda>c. c_confidence c = v) (res_candidates r) =
                filter (\<lambda>c. c_confidence c = v) (scored input gathered))"
  unfolding identifyBuilding_def identifyBuilding_with_miss [OF assms]
  by (simp add: ranked_def sorted_array_sort filter_array_sort length_array_sort scored_def)

theorem identifyBuilding_sorted_stable_witness:
  "fst (getCachedIdentifyResults ex_env_places (userCoordinates_of ex_input) (in_heading ex_input)
          (searchRadius_of ex_env_places ex_input) (ex_world [ex_row])) = Inr None \<and>
   fst (step2_candidates findNearbyPlaces ex_env_places (userCoordinates_of ex_input)
          (searchRadius_of ex_env_places ex_input)
          (log_call Call_getCachedIdentifyResults (ex_world [ex_row]))) =
     Inr (candidate_of_cached ex_row # ex_gathered) \<and>
   map c_name (ranked ex_input (candidate_of_cached ex_row # ex_gathered)) =
     [Some ''A'', Some ''C'', Some ''B'', Some ''Town Hall''] \<and>
   map c_confidence (ranked ex_input (candidate_of_cached ex_row # ex_gathered)) =
     [85, 85, 81, 75] \<and>
   (\<exists>r. fst (identifyBuilding ex_env_places ex_input (ex_world [ex_row])) = Inr r \<and>
        sorted_wrt (\<lambda>a b. c_confidence b \<le> c_confidence a) (res_candidates r) \<and>
        length (res_candidates r) = length (candidate_of_cached ex_row # ex_gathered) \<and>
        (\<forall>v. filter (\<lambda>c. c_confidence c = v) (res_candidates r) =
             filter (\<lambda>c. c_confidence c = v)
               (scored ex_input (candidate_of_cached ex_row # ex_gathered))))"
  using ex_miss [of "[ex_row]"] ex_step2_places ex_ranked_names
    identifyBuilding_sorted_stable [OF ex_miss [of "[ex_row]"] ex_step2_places]
  by simp

text \<open>
  Claim C5. On a miss of the result cache, \<open>saveBuildingToCache\<close> is called once for each
  of the first five candidates of the returned (sorted) list whose source is not the cache
  and whose confidence is above 30, in that order, and for no other candidate. The table
  \<^verbatim>\<open>cached_buildings\<close> after the operation is the table these saves, and nothing else,
  leave behind: every row of it is a row that was there before or holds the merged metadata
  of one of these candidates. The result of the operation is the same whatever the saves do,
  so a failing save is neither propagated nor visible in the returned list.
\<close>

theorem identifyBuilding_persists_top:
  assumes "fst (getCachedIdentifyResults env (userCoordinates_of input) (in_heading input)
            (searchRadius_of env input) w) = Inr None"
    and "fst (step2_candidates findNearbyPlaces env (userCoordinates_of input)
            (searchRadius_of env input) (log_call Call_getCachedIdentifyResults w)) = Inr gathered"
  shows "(\<exists>r. fst (identifyBuilding env input w) = Inr r \<and>
            res_candidates r = ranked input gathered \<and>
            sorted_wrt (\<lambda>a b. c_confidence b \<le> c_confidence a) (res_candidates r) \<and>
            saved_candidates (calls (snd (identifyBuilding env input w))) =
              saved_candidates (calls w) @
              take 5 (filter (\<lambda>c. c_source c \<noteq> cache \<and> c_confidence c > 30)
                        (res_candidates r)) \<and>
            cached_buildings (snd (identifyBuilding env input w)) =
              cached_buildings
                (foldl (\<lambda>v c. snd (saveBuildingToCache env c None v)) w
                   (take 5 (filter (\<lambda>c. c_source c \<noteq> cache \<and> c_confidence c > 30)
                              (res_candidates r)))) \<and>
            (\<forall>row \<in> set (cached_buildings (snd (identifyBuilding env input w))).
               row \<in> set (cached_buildings w) \<or>
               (\<exists>c \<in> set (take 5 (filter (\<lambda>c. c_source c \<noteq> cache \<and> c_confidence c > 30)
                                    (res_candidates r))).
                  cb_metadata row = Some (merged_metadata c)))) \<and>
         fst (identifyBuilding (env\<lparr>save_fails := f, uuid_generate_v4 := u\<rparr>) input w) =
         fst (identifyBuilding env input w)"
proof -
  note t = identifyBuilding_table [OF assms]
  have r: "\<forall>row \<in> set (cached_buildings (snd (identifyBuilding env input w))).
             row \<in> set (cached_buildings w) \<or>
             (\<exists>c \<in> set (topCandidates (ranked input gathered)).
                cb_metadata row = Some (merged_metadata c))"
    unfolding t using saves_rows [of _ env w "topCandidates (ranked input gathered)"] by blast
  show ?thesis
    using saved_identifyBuilding [OF assms] t r
      identifyBuilding_save_indep [where env = env and f = f and u = u and input = input and w = w]
      identifyBuilding_with_miss [OF assms]
    by (simp add: identifyBuilding_def topCandidates_def ranked_def sorted_array_sort)
qed

theorem identifyBuilding_persists_top_witness:
  "fst (getCachedIdentifyResults ex_env_places (userCoordinates_of ex_input) (in_heading ex_input)
          (searchRadius_of ex_env_places ex_input) (ex_world [ex_row])) = Inr None \<and>
   fst (step2_candidates findNearbyPlaces ex_env_places (userCoordinates_of ex_input)
          (searchRadius_of ex_env_places ex_input)
          (log_call Call_getCachedIdentifyResults (ex_world [ex_row]))) =
     Inr (candidate_of_cached ex_row # ex_gathered) \<and>
   map c_name (saved_candidates
      (calls (snd (identifyBuilding ex_env_places ex_input (ex_world [ex_row]))))) =
     [Some ''A'', Some ''C'', Some ''B''] \<and>
   map cb_id (cached_buildings (snd (identifyBuilding ex_env_places ex_input (ex_world [ex_row])))) =
     [''b1'', ''idx'', ''idxx'', ''idxxx''] \<and>
   map cb_externalId
     (cached_buildings (snd (identifyBuilding ex_env_places ex_input (ex_world [ex_row])))) =
     [Some ''p1'', Some ''place-A'', Some ''place-C'', Some ''place-B''] \<and>
   map (\<lambda>row. metadata_value (cb_metadata row) ''confidence'')
     (cached_buildings (snd (identifyBuilding ex_env_places ex_input (ex_world [ex_row])))) =
     [None, Some (JNum 85), Some (JNum 85), Some (JNum 81)] \<and>
   fst (identifyBuilding
          (ex_env_places\<lparr>save_fails := (\<lambda>b. Some (Error ''connection refused'')),
                         uuid_generate_v4 := uuid_generate_v4 ex_env_places\<rparr>)
          ex_input (ex_world [ex_row])) =
   fst (identifyBuilding ex_env_places ex_input (ex_world [ex_row]))"
proof -
  note c = identifyBuilding_persists_top [OF ex_miss [of "[ex_row]"] ex_step2_places,
      where f = "\<lambda>b. Some (Error ''connection refused'')"
        and u = "uuid_generate_v4 ex_env_places"]
  from c obtain r :: IdentifyBuildingResult where r: "res_candidates r = ranked ex_input (candidate_of_cached ex_row # ex_gathered)"
    and s: "saved_candidates (calls (snd (identifyBuilding ex_env_places ex_input (ex_world [ex_row])))) =
              saved_candidates (calls (ex_world [ex_row])) @
              take 5 (filter (\<lambda>c. c_source c \<noteq> cache \<and> c_confidence c > 30) (res_candidates r))"
    and t: "cached_buildings (snd (identifyBuilding ex_env_places ex_input (ex_world [ex_row]))) =
              cached_buildings
                (foldl (\<lambda>v c. snd (saveBuildingToCache ex_env_places c None v)) (ex_world [ex_row])
                   (take 5 (filter (\<lambda>c. c_source c \<noteq> cache \<and> c_confidence c > 30)
                              (res_candidates r))))"
    by blast
  have 1: "map c_name (saved_candidates
      (calls (snd (identifyBuilding ex_env_places ex_input (ex_world [ex_row]))))) =
     [Some ''A'', Some ''C'', Some ''B'']"
    unfolding s r using ex_saved by (simp add: ex_world_def)
  have 2: "cached_buildings (snd (identifyBuilding ex_env_places ex_input (ex_world [ex_row]))) =
     cached_buildings
       (foldl (\<lambda>v c. snd (saveBuildingToCache ex_env_places c None v)) (ex_world [ex_row])
          (topCandidates (ranked ex_input (candidate_of_cached ex_row # ex_gathered))))"
    unfolding t r by (simp add: topCandidates_def)
  show ?thesis
    unfolding 2
    using ex_miss [of "[ex_row]"] ex_step2_places 1 ex_table c
    by (simp add: stored_values_def)
qed

text \<open>
  Claim C6. While gathering, the geocoding adapter is called exactly when the building cache
  and the places adapter gave fewer than three candidates together; it adds its result as
  one candidate, or none when it returns \<^verbatim>\<open>null\<close>; when it is not called the
  candidates are those of the building cache followed by those of the places adapter.
\<close>

theorem step2_geocoding_fallback:
  assumes "fst (getCachedBuildings env c r w) = Inr cached"
    and "findNearbyPlaces env c r (log_call Call_getCachedBuildings w) = (Inr nearby, w2)"
  shows "\<exists>extra w'.
     step2_candidates findNearbyPlaces env c r w =
       (Inr (cached @ map candidate_of_place nearby @ extra), w') \<and>
     length extra \<le> 1 \<and>
     calls w' = calls w @ [Call_getCachedBuildings, Call_findNearbyPlaces] @
       (if length cached + length nearby < 3 then [Call_reverseGeocode] else []) \<and>
     extra =
       (if length cached + length nearby < 3
        then (case fst (reverseGeocode env c w2) of
                Inr (Some g) \<Rightarrow> [candidate_of_geocode g]
              | _ \<Rightarrow> [])
        else [])"
proof -
  have c2: "calls w2 = calls w @ [Call_getCachedBuildings, Call_findNearbyPlaces]"
    using calls_findNearbyPlaces [of env c r "log_call Call_getCachedBuildings w"] assms(2)
    by (simp add: log_call_def)
  show ?thesis
    unfolding step2_candidates_eq [OF assms]
    by (simp add: c2 calls_reverseGeocode split: sum.splits option.splits)
qed

text \<open>
  Two runs of step 2 on a table with one row: with no place and a geocoding result the
  adapter is called and adds its candidate; with three places it is not called.
\<close>

theorem step2_geocoding_fallback_witness:
  "fst (getCachedBuildings ex_env_geocode \<lparr>latitude = 0, longitude = 0\<rparr> 100 (ex_world [ex_row])) =
     Inr [candidate_of_cached ex_row] \<and>
   findNearbyPlaces ex_env_geocode \<lparr>latitude = 0, longitude = 0\<rparr> 100
       (log_call Call_getCachedBuildings (ex_world [ex_row])) =
     (Inr [],
      (log_call Call_findNearbyPlaces (log_call Call_getCachedBuildings (ex_world [ex_row])))
        \<lparr>redis_places := [places_getCacheKey 0 0 100 \<mapsto> []]\<rparr>) \<and>
   fst (step2_candidates findNearbyPlaces ex_env_geocode \<lparr>latitude = 0, longitude = 0\<rparr> 100
          (ex_world [ex_row])) =
     Inr [candidate_of_cached ex_row, candidate_of_geocode ex_geocoded] \<and>
   calls (snd (step2_candidates findNearbyPlaces ex_env_geocode \<lparr>latitude = 0, longitude = 0\<rparr> 100
          (ex_world [ex_row]))) =
     [Call_getCachedBuildings, Call_findNearbyPlaces, Call_reverseGeocode] \<and>
   fst (getCachedBuildings ex_env_places \<lparr>latitude = 0, longitude = 0\<rparr> 100 (ex_world [ex_row])) =
     Inr [candidate_of_cached ex_row] \<and>
   findNearbyPlaces ex_env_places \<lparr>latitude = 0, longitude = 0\<rparr> 100
       (log_call Call_getCachedBuildings (ex_world [ex_row])) =
     (Inr (transform_places [ex_raw ''B'' None, ex_raw ''A'' (Some 4), ex_raw ''C'' (Some 5)]),
      (log_call Call_findNearbyPlaces (log_call Call_getCachedBuildings (ex_world [ex_row])))
        \<lparr>redis_places := [places_getCacheKey 0 0 100 \<mapsto>
           transform_places [ex_raw ''B'' None, ex_raw ''A'' (Some 4), ex_raw ''C'' (Some 5)]]\<rparr>) \<and>
   fst (step2_candidates findNearbyPlaces ex_env_places \<lparr>latitude = 0, longitude = 0\<rparr> 100
          (ex_world [ex_row])) =
     Inr (candidate_of_cached ex_row # ex_gathered) \<and>
   calls (snd (step2_candidates findNearbyPlaces ex_env_places \<lparr>latitude = 0, longitude = 0\<rparr> 100
          (ex_world [ex_row]))) =
     [Call_getCachedBuildings, Call_findNearbyPlaces]"
proof -
  let ?c = "\<lparr>latitude = 0, longitude = 0\<rparr>"
  let ?w1 = "log_call Call_findNearbyPlaces (log_call Call_getCachedBuildings (ex_world [ex_row]))"
  let ?w2 = "?w1\<lparr>redis_places := [places_getCacheKey 0 0 100 \<mapsto> []]\<rparr>"
  let ?ps = "transform_places [ex_raw ''B'' None, ex_raw ''A'' (Some 4), ex_raw ''C'' (Some 5)]"
  let ?w2' = "?w1\<lparr>redis_places := [places_getCacheKey 0 0 100 \<mapsto> ?ps]\<rparr>"
  have a: "fst (getCachedBuildings ex_env_geocode ?c 100 (ex_world [ex_row])) =
     Inr [candidate_of_cached ex_row]"
    by (simp add: getCachedBuildings_eq ex_services ex_env_geocode_def ex_env_def ex_world_def
        ex_row_def)
  have b: "findNearbyPlaces ex_env_geocode ?c 100
       (log_call Call_getCachedBuildings (ex_world [ex_row])) = (Inr [], ?w2)"
    by (simp add: ex_services ex_env_geocode_def ex_env_def ex_world_def)
  have g: "fst (reverseGeocode ex_env_geocode ?c ?w2) = Inr (Some ex_geocoded)"
    by (simp add: ex_services ex_env_geocode_def ex_env_def ex_world_def ex_geocoded_def
        ex_google_def)
  have a': "fst (getCachedBuildings ex_env_places ?c 100 (ex_world [ex_row])) =
     Inr [candidate_of_cached ex_row]"
    by (simp add: getCachedBuildings_eq ex_services ex_env_places_def ex_env_def ex_world_def
        ex_row_def)
  have b': "findNearbyPlaces ex_env_places ?c 100
       (log_call Call_getCachedBuildings (ex_world [ex_row])) = (Inr ?ps, ?w2')"
    by (simp add: ex_services ex_env_places_def ex_env_def ex_world_def
        del: List.map_filter_simps)
  have 1: "fst (step2_candidates findNearbyPlaces ex_env_geocode ?c 100 (ex_world [ex_row])) =
     Inr [candidate_of_cached ex_row, candidate_of_geocode ex_geocoded] \<and>
   calls (snd (step2_candidates findNearbyPlaces ex_env_geocode ?c 100 (ex_world [ex_row]))) =
     [Call_getCachedBuildings, Call_findNearbyPlaces, Call_reverseGeocode]"
    using g step2_geocoding_fallback [OF a b]
    by (auto simp add: ex_world_def log_call_def)
  have 2: "fst (step2_candidates findNearbyPlaces ex_env_places ?c 100 (ex_world [ex_row])) =
     Inr (candidate_of_cached ex_row # ex_gathered) \<and>
   calls (snd (step2_candidates findNearbyPlaces ex_env_places ?c 100 (ex_world [ex_row]))) =
     [Call_getCachedBuildings, Call_findNearbyPlaces]"
    using step2_geocoding_fallback [OF a' b']
    by (auto simp add: ex_world_def ex_transform ex_gathered_def)
  show ?thesis
    using a b a' b' 1 2 by simp
qed

section \<open>Saving a candidate\<close>

text \<open>
  Claim C7. \<open>saveBuildingToCache\<close> is called by \<open>identifyBuilding\<close> alone, on the
  candidates it selects after a miss of the result cache. For each of them, when the Redis
  entries of the adapters were written by the adapters, a successful save leaves a record
  with the returned id whose metadata holds the candidate's distance, bearing, bearing
  difference and confidence, and in which every key of the candidate's metadata, which came
  from the external source, has the value it had.
\<close>

theorem saveBuildingToCache_metadata:
  assumes "cached_by_adapters env input w"
    and "fst (getCachedIdentifyResults env (userCoordinates_of input) (in_heading input)
            (searchRadius_of env input) w) = Inr None"
    and "fst (step2_candidates findNearbyPlaces env (userCoordinates_of input)
            (searchRadius_of env input) (log_call Call_getCachedIdentifyResults w)) = Inr gathered"
    and "candidate \<in> set (topCandidates (ranked input gathered))"
    and "saveBuildingToCache env' candidate ttl w1 = (Inr i, w2)"
  shows "(\<exists>row \<in> set (cached_buildings w2). cb_id row = i) \<and>
         (\<forall>row \<in> set (cached_buildings w2). cb_id row = i \<longrightarrow>
            (\<exists>m. cb_metadata row = Some m \<and>
                 m ''distance'' = Some (JNum (c_distance candidate)) \<and>
                 m ''bearing'' = Some (JNum (c_bearing candidate)) \<and>
                 m ''bearingDiff'' = map_option JNum (c_bearingDiff candidate) \<and>
                 m ''confidence'' = Some (JNum (c_confidence candidate)) \<and>
                 (\<forall>k. metadata_value (c_metadata candidate) k \<noteq> None \<longrightarrow>
                      m k = metadata_value (c_metadata candidate) k)))"
proof -
  have n: "no_computed_keys (c_metadata candidate)"
    by (rule topCandidates_keys [OF assms(1,3,4)])
  have k: "k \<notin> {''distance'', ''bearing'', ''bearingDiff'', ''confidence''}"
    if "metadata_value (c_metadata candidate) k \<noteq> None" for k
    using n that by (auto simp add: no_computed_keys_def)
  obtain b where b: "saveBuildingToDatabase env' b
        (log_call (Call_saveBuildingToCache candidate) w1) = (Inr i, w2)"
    and m: "bd_metadata b = Some (merged_metadata candidate)"
    using assms(5) by (simp add: saveBuildingToCache_def Let_def)
  have o: "merged_metadata candidate k = metadata_value (c_metadata candidate) k"
    if "metadata_value (c_metadata candidate) k \<noteq> None" for k
    using merged_metadata_other [OF k [OF that], of candidate]
    by (simp add: metadata_value_def)
  show ?thesis
    using saveBuildingToDatabase_stored [OF b] merged_metadata_computed [of candidate] o
    by (simp add: m)
qed

theorem saveBuildingToCache_metadata_witness:
  "cached_by_adapters ex_env_places ex_input (ex_world [ex_row]) \<and>
   fst (getCachedIdentifyResults ex_env_places (userCoordinates_of ex_input) (in_heading ex_input)
          (searchRadius_of ex_env_places ex_input) (ex_world [ex_row])) = Inr None \<and>
   fst (step2_candidates findNearbyPlaces ex_env_places (userCoordinates_of ex_input)
          (searchRadius_of ex_env_places ex_input)
          (log_call Call_getCachedIdentifyResults (ex_world [ex_row]))) =
     Inr (candidate_of_cached ex_row # ex_gathered) \<and>
   ex_top \<in> set (topCandidates (ranked ex_input (candidate_of_cached ex_row # ex_gathered))) \<and>
   saveBuildingToCache ex_env ex_top None (ex_world []) =
     (Inr ''id'', snd (saveBuildingToCache ex_env ex_top None (ex_world []))) \<and>
   metadata_value (c_metadata ex_top) ''rating'' = Some (JNum 4) \<and>
   stored_values ''rating'' (snd (saveBuildingToCache ex_env ex_top None (ex_world []))) =
     [Some (JNum 4)] \<and>
   stored_values ''confidence'' (snd (saveBuildingToCache ex_env ex_top None (ex_world []))) =
     [Some (JNum 85)] \<and>
   (\<exists>row \<in> set (cached_buildings (snd (saveBuildingToCache ex_env ex_top None (ex_world [])))).
      cb_id row = ''id'')"
proof -
  have s: "saveBuildingToCache ex_env ex_top None (ex_world []) =
     (Inr ''id'', snd (saveBuildingToCache ex_env ex_top None (ex_world [])))"
    using ex_top_saved by simp
  show ?thesis
    using ex_cached_by_adapters [of "[ex_row]"] ex_miss [of "[ex_row]"] ex_step2_places ex_top_in
      ex_top_saved ex_top_value
      saveBuildingToCache_metadata [OF ex_cached_by_adapters [of "[ex_row]"] ex_miss [of "[ex_row]"] ex_step2_places
        ex_top_in s]
    by simp
qed

end
